theory Spec2Isabelle
  imports Complex_Main "HOL-Library.AList" "HOL-Library.Log_Nat"
begin

section \<open>JavaScript values used by the student dashboard\<close>

text \<open>
  The dashboard stores and computes JavaScript numbers. Three kinds of value reach the
  stored fields modelled here: an integer, the value NaN produced by arithmetic on
  something that is not a number, and null as returned by the database for an empty
  column. Sums of integers are exact (all quantities stay far below \<open>2 ^ 53\<close>).
\<close>

datatype number = Num int | NaN | Null

text \<open>\<open>x > 0\<close>: null converts to 0, every comparison with NaN is false.\<close>

fun gt_zero :: "number \<Rightarrow> bool" where
  "gt_zero (Num n) = (0 < n)"
| "gt_zero NaN = False"
| "gt_zero Null = False"

text \<open>\<open>x || 0\<close>: the falsy values 0, NaN and null all give 0.\<close>

fun or_zero :: "number \<Rightarrow> int" where
  "or_zero (Num n) = n"
| "or_zero NaN = 0"
| "or_zero Null = 0"

text \<open>\<open>a + b\<close> for a number \<open>a\<close>: null converts to 0, NaN is absorbing.\<close>

fun js_add :: "int \<Rightarrow> number \<Rightarrow> number" where
  "js_add a (Num b) = Num (a + b)"
| "js_add a NaN = NaN"
| "js_add a Null = Num a"

text \<open>
  The request body is produced by \<open>JSON.stringify\<close>, which writes NaN as null; the
  column then holds NULL.
\<close>

fun to_json :: "number \<Rightarrow> number" where
  "to_json NaN = Null"
| "to_json v = v"

text \<open>\<open>Math.round\<close> rounds to the nearest integer, halves towards plus infinity.\<close>

definition Math_round :: "rat \<Rightarrow> int" where
  "Math_round x = \<lfloor>x + 1 / 2\<rfloor>"

subsection \<open>Double precision\<close>

text \<open>
  A quotient or product of numbers is the double nearest to the exact result, ties going
  to the even significand. For a result of normal magnitude: scale it by a power of two
  into \<open>[2 ^ 52, 2 ^ 53)\<close>, round to the nearest integer, scale back. (The results
  computed here are quotients of small natural numbers and their products with 100, far
  from the subnormal and the overflow range.)
\<close>

definition round_ties_even :: "rat \<Rightarrow> int" where
  "round_ties_even x =
     (let n = \<lfloor>x\<rfloor>; r = x - of_int n
      in if r < 1 / 2 then n else if 1 / 2 < r then n + 1 else if even n then n else n + 1)"

definition pow2 :: "int \<Rightarrow> rat" where
  "pow2 e = (if 0 \<le> e then 2 ^ nat e else 1 / 2 ^ nat (- e))"

text \<open>\<open>exponent x\<close> is the integer \<open>k\<close> with \<open>2 ^ k \<le> |x| < 2 ^ (k + 1)\<close>, for \<open>x \<noteq> 0\<close>.\<close>

definition exponent :: "rat \<Rightarrow> int" where
  "exponent x =
     (let k = bitlen (fst (quotient_of \<bar>x\<bar>)) - bitlen (snd (quotient_of \<bar>x\<bar>))
      in if pow2 k \<le> \<bar>x\<bar> then k else k - 1)"

definition binary64 :: "rat \<Rightarrow> rat" where
  "binary64 x =
     (if x = 0 then 0
      else (let e = exponent x - 52 in of_int (round_ties_even (x / pow2 e)) * pow2 e))"

text \<open>\<open>x / y\<close> for \<open>y \<noteq> 0\<close>, and \<open>x * y\<close>.\<close>

definition js_div :: "rat \<Rightarrow> rat \<Rightarrow> rat" where
  "js_div x y = binary64 (x / y)"

definition js_mul :: "rat \<Rightarrow> rat \<Rightarrow> rat" where
  "js_mul x y = binary64 (x * y)"

section \<open>calculatePointsReward\<close>

text \<open>
  The result of reading a property of the object literal
  \<open>{ beginner: 1, intermediate: 1.5, advanced: 2 }\<close>: an own property is a number, a
  name that the literal does not define is looked up in \<open>Object.prototype\<close>, where it
  is either absent (undefined) or a function or object.
\<close>

datatype jsvalue = Undefined | Number rat | Object

definition object_prototype_keys :: "string list" where
  "object_prototype_keys =
     [''constructor'', ''__proto__'', ''hasOwnProperty'', ''isPrototypeOf'',
      ''propertyIsEnumerable'', ''toLocaleString'', ''toString'', ''valueOf'',
      ''__defineGetter__'', ''__defineSetter__'', ''__lookupGetter__'',
      ''__lookupSetter__'']"

definition difficultyMultiplier :: "string \<Rightarrow> jsvalue" where
  "difficultyMultiplier k =
     (if k = ''beginner'' then Number 1
      else if k = ''intermediate'' then Number (3 / 2)
      else if k = ''advanced'' then Number 2
      else if k \<in> set object_prototype_keys then Object
      else Undefined)"

text \<open>\<open>v || 1\<close>: undefined and 0 are falsy, functions and objects are truthy.\<close>

fun or_one :: "jsvalue \<Rightarrow> jsvalue" where
  "or_one Undefined = Number 1"
| "or_one (Number r) = (if r = 0 then Number 1 else Number r)"
| "or_one Object = Object"

text \<open>
  \<open>estimated_duration\<close> is an INTEGER column. Multiplying by a function or object
  gives NaN, which \<open>Math.round\<close>, the division and \<open>Math.max\<close> all propagate.
  The numeric path is computed on exact rationals: the multipliers make the product a
  multiple of one half, which double precision represents exactly, and the quotients by
  10 and by 5 go straight into \<open>Math.round\<close>, where rounding the quotient to a double
  first cannot carry it across a half-integer.
\<close>

definition calculatePointsReward :: "int \<Rightarrow> string \<Rightarrow> number" where
  "calculatePointsReward duration difficulty =
     (let basePoints = Math_round (of_int duration / 10);
          multiplier = or_one (difficultyMultiplier difficulty)
      in case multiplier of
           Number m \<Rightarrow>
             (let calculatedPoints = Math_round (of_int basePoints * m)
              in Num (max 5 (Math_round (of_int calculatedPoints / 5) * 5)))
         | _ \<Rightarrow> NaN)"

section \<open>Rows and client-side objects\<close>

text \<open>
  Identifiers are UUID strings. \<open>Gen n\<close> stands for the \<open>n\<close>-th value drawn by
  \<open>gen_random_uuid()\<close>, \<open>Lit s\<close> for an identifier supplied from outside (the
  authentication provider, the module generation service).
\<close>

datatype uuid = Lit string | Gen nat

record QuizQuestion =
  q_id :: string
  question :: string
  options :: "string list"
  correct_answer :: string

text \<open>
  A row of \<open>user_module_progress\<close> as the dashboard's type \<open>Module\<close> declares it. An
  absent or empty \<open>quizzes\<close> array is the empty list: the code treats both alike
  (\<open>module.quizzes || []\<close>, \<open>!module.quizzes || module.quizzes.length === 0\<close>).
\<close>

record Module =
  m_id :: uuid
  user_id :: uuid
  module_id :: uuid
  title :: string
  difficulty :: string
  estimated_duration :: int
  points_reward :: number
  progress_percentage :: int
  is_completed :: bool
  is_read_only :: bool
  quizzes :: "QuizQuestion list"

record BadgeType =
  b_user_id :: uuid
  b_name :: string
  b_description :: string
  b_icon :: string
  b_module_id :: uuid

record Profile =
  p_id :: uuid
  total_points :: number

section \<open>The modules query: removing duplicates by module id\<close>

text \<open>\<open>Array.prototype.findIndex\<close>; \<open>None\<close> is the result \<open>-1\<close>.\<close>

fun findIndex :: "('a \<Rightarrow> bool) \<Rightarrow> 'a list \<Rightarrow> nat option" where
  "findIndex P [] = None"
| "findIndex P (x # xs) = (if P x then Some 0 else map_option Suc (findIndex P xs))"

definition dedup_step :: "Module list \<Rightarrow> Module \<Rightarrow> Module list" where
  "dedup_step acc current =
     (case findIndex (\<lambda>m. module_id m = module_id current) acc of
        None \<Rightarrow> acc @ [current]
      | Some existingIndex \<Rightarrow>
          (let existing = acc ! existingIndex
           in if is_completed current \<and> \<not> is_completed existing
              then acc[existingIndex := current]
              else if progress_percentage current > progress_percentage existing
              then acc[existingIndex := current]
              else acc))"

definition uniqueModules :: "Module list \<Rightarrow> Module list" where
  "uniqueModules data = foldl dedup_step [] data"

section \<open>Derived values of the dashboard\<close>

text \<open>
  \<open>modulesWithConsistentPoints\<close>: a stored reward is kept when it is positive, otherwise
  the reward is recomputed from duration and difficulty.
\<close>

definition modulesWithConsistentPoints :: "Module list \<Rightarrow> Module list" where
  "modulesWithConsistentPoints ms =
     map (\<lambda>m. m\<lparr>points_reward :=
                   (if gt_zero (points_reward m) then points_reward m
                    else calculatePointsReward (estimated_duration m) (difficulty m))\<rparr>) ms"

text \<open>
  The state \<open>answers\<close> is a plain object used as a dictionary from quiz id to the
  selected option; its own properties are kept as an association list. Reading a key
  that is not an own property finds the members of \<open>Object.prototype\<close>.
\<close>

datatype lookup = Own string | Inherited | Missing

definition answer_of :: "(string \<times> string) list \<Rightarrow> string \<Rightarrow> lookup" where
  "answer_of answers k =
     (case map_of answers k of
        Some v \<Rightarrow> Own v
      | None \<Rightarrow> if k \<in> set object_prototype_keys then Inherited else Missing)"

text \<open>
  \<open>calculateQuizScore\<close>: the share of questions whose recorded answer is strictly equal
  to the correct answer, times 100, in double precision; 0 for a module without questions.
\<close>

definition calculateQuizScore :: "Module \<Rightarrow> (string \<times> string) list \<Rightarrow> rat" where
  "calculateQuizScore md currentAnswers =
     (let moduleQuizzes = quizzes md
      in if length moduleQuizzes = 0 then 0
         else
           (let correctCount =
                  length (filter (\<lambda>quiz. answer_of currentAnswers (q_id quiz)
                                             = Own (correct_answer quiz)) moduleQuizzes)
            in js_mul (js_div (of_nat correctCount) (of_nat (length moduleQuizzes))) 100))"

section \<open>The database\<close>

text \<open>
  The tables the pages write. \<open>user_module_progress\<close> carries the constraints of the
  migration: \<open>UNIQUE(user_id, module_id)\<close>, the foreign key from \<open>module_id\<close> to
  \<open>learning_modules(id)\<close>, and the type INTEGER of \<open>progress_percentage\<close>; of
  \<open>learning_modules\<close> only the ids matter here. The columns of \<open>user_module_progress\<close>
  that the dashboard reads and writes beyond those of the migration are taken as its type
  \<open>Module\<close> declares them. \<open>profiles.total_points\<close> is a nullable INTEGER.

  The repository declares neither \<open>user_badges\<close> nor \<open>progress\<close>. Whether \<open>user_badges\<close>
  carries a uniqueness constraint on \<open>(user_id, module_id)\<close> is therefore a parameter
  of the database, the field \<open>user_badges_constraint\<close>. \<open>progress\<close> is only written by
  a handler whose write is never reached (see \<open>handleMarkComplete\<close>). Timestamps and
  free-text columns that no decision reads (\<open>description\<close>, \<open>detailed_content\<close>,
  \<open>level\<close>, \<open>earned_at\<close>) are left out.
\<close>

record ProgressRow =
  pr_user_id :: uuid
  pr_module_id :: uuid
  pr_is_completed :: bool
  pr_progress_percentage :: int

datatype badge_constraint = NoConstraint | UniqueUserModule

record db =
  profiles :: "Profile list"
  learning_modules :: "uuid list"
  user_module_progress :: "Module list"
  progress :: "ProgressRow list"
  user_badges :: "BadgeType list"
  user_badges_constraint :: badge_constraint
  next_uuid :: nat

text \<open>
  The failures a handler can meet: the mutation's own "No profile found" and "No modules
  returned from API"; the database errors 23505 (duplicate key), 23503 (foreign key),
  22003 (integer out of range) and 42501 (row-level security); and the TypeError of
  calling something that is not a function.
\<close>

datatype error =
    NoProfileFound | NoModulesReturned | DuplicateKey | ForeignKeyViolation
  | NumericValueOutOfRange | PolicyViolation | NotAFunction

text \<open>The values of a Postgres INTEGER.\<close>

definition int4 :: "int \<Rightarrow> bool" where
  "int4 n = (- 2147483648 \<le> n \<and> n \<le> 2147483647)"

text \<open>\<open>.single()\<close> yields the row when the result has exactly one row, an error otherwise.\<close>

definition single :: "'a list \<Rightarrow> 'a option" where
  "single xs = (case xs of [x] \<Rightarrow> Some x | _ \<Rightarrow> None)"

text \<open>
  \<open>update(...).eq("module_id", mid).eq("user_id", uid)\<close> on \<open>user_module_progress\<close>. The
  handlers only write percentages between 0 and 100 and booleans this way.
\<close>

definition update_progress_rows ::
  "uuid \<Rightarrow> uuid \<Rightarrow> (Module \<Rightarrow> Module) \<Rightarrow> db \<Rightarrow> db" where
  "update_progress_rows mid uid f d =
     d\<lparr>user_module_progress :=
         map (\<lambda>r. if module_id r = mid \<and> user_id r = uid then f r else r)
           (user_module_progress d)\<rparr>"

text \<open>
  \<open>update({ total_points: v }).eq("id", pid)\<close> on \<open>profiles\<close>. The request body carries
  \<open>to_json v\<close>. A number outside the INTEGER range is refused with error 22003 and the
  table stays as it was.
\<close>

definition update_total_points :: "uuid \<Rightarrow> number \<Rightarrow> db \<Rightarrow> error + db" where
  "update_total_points pid v d =
     (case to_json v of
        Num n \<Rightarrow>
          if int4 n
          then Inr (d\<lparr>profiles :=
                        map (\<lambda>p. if p_id p = pid then p\<lparr>total_points := Num n\<rparr> else p)
                          (profiles d)\<rparr>)
          else Inl NumericValueOutOfRange
      | w \<Rightarrow>
          Inr (d\<lparr>profiles :=
                   map (\<lambda>p. if p_id p = pid then p\<lparr>total_points := Null\<rparr> else p)
                     (profiles d)\<rparr>))"

definition progress_key :: "Module \<Rightarrow> uuid \<times> uuid" where
  "progress_key r = (user_id r, module_id r)"

text \<open>
  One INSERT statement into \<open>user_module_progress\<close>. No row sent carries an \<open>id\<close>, so
  every row receives a fresh primary key. A percentage outside the INTEGER range is
  refused when the request is read (22003). The rows are then stored one after the
  other, each checked against the unique index on \<open>(user_id, module_id)\<close> as it
  arrives (23505); the foreign key to \<open>learning_modules\<close> is checked when all rows are
  in (23503). The statement is atomic: an error leaves the table as it was.
\<close>

fun assign_ids :: "nat \<Rightarrow> Module list \<Rightarrow> Module list" where
  "assign_ids n [] = []"
| "assign_ids n (r # rs) = r\<lparr>m_id := Gen n\<rparr> # assign_ids (Suc n) rs"

fun insert_rows :: "Module list \<Rightarrow> Module list \<Rightarrow> Module list option" where
  "insert_rows table [] = Some table"
| "insert_rows table (r # rs) =
     (if progress_key r \<in> set (map progress_key table) then None
      else insert_rows (table @ [r]) rs)"

definition insert_progress_rows :: "Module list \<Rightarrow> db \<Rightarrow> error + db" where
  "insert_progress_rows rows d =
     (if \<not> list_all (\<lambda>r. int4 (progress_percentage r)) rows then Inl NumericValueOutOfRange
      else
        (case insert_rows (user_module_progress d) (assign_ids (next_uuid d) rows) of
           None \<Rightarrow> Inl DuplicateKey
         | Some stored \<Rightarrow>
             if list_all (\<lambda>r. module_id r \<in> set (learning_modules d)) rows
             then Inr (d\<lparr>user_module_progress := stored,
                          next_uuid := next_uuid d + length rows\<rparr>)
             else Inl ForeignKeyViolation))"

section \<open>The student dashboard\<close>

record dashboard =
  userId :: "uuid option"
  profile :: "Profile option"
  modules :: "Module list"
  selectedModule :: "Module option"
  answers :: "(string \<times> string) list"
  quizResults :: "(string \<times> bool) list"
  completedQuizzes :: "string list"
  incorrectQuizzes :: "string list"

text \<open>
  The queries \<open>['profile', userId]\<close> and \<open>['modules', userId]\<close>, both enabled once the
  user id is known. A failed query keeps the data it had. Rows come newest first.
\<close>

definition fetch_profile :: "db \<Rightarrow> dashboard \<Rightarrow> dashboard" where
  "fetch_profile d c =
     (case userId c of
        None \<Rightarrow> c
      | Some u \<Rightarrow>
          (case single (filter (\<lambda>p. p_id p = u) (profiles d)) of
             Some p \<Rightarrow> c\<lparr>profile := Some p\<rparr>
           | None \<Rightarrow> c))"

definition fetch_modules :: "db \<Rightarrow> dashboard \<Rightarrow> dashboard" where
  "fetch_modules d c =
     (case userId c of
        None \<Rightarrow> c
      | Some u \<Rightarrow>
          c\<lparr>modules :=
              uniqueModules (rev (filter (\<lambda>m. user_id m = u) (user_module_progress d)))\<rparr>)"

text \<open>
  \<open>openModule\<close>. The second argument is the answer of the quiz generation service,
  consulted only for an open module without questions; an empty answer is a failure.
\<close>

definition openModule :: "Module \<Rightarrow> QuizQuestion list \<Rightarrow> dashboard \<Rightarrow> dashboard" where
  "openModule md generated c =
     (let fresh = \<not> is_completed md \<and> \<not> is_read_only md;
          c1 = c\<lparr>selectedModule := Some md\<rparr>;
          c2 = (if fresh
                then c1\<lparr>answers := [], quizResults := [], completedQuizzes := [],
                        incorrectQuizzes := []\<rparr>
                else c1)
      in if quizzes md = [] \<and> fresh \<and> generated \<noteq> []
         then c2\<lparr>selectedModule := Some (md\<lparr>quizzes := generated\<rparr>)\<rparr>
         else c2)"

definition closeModule :: "dashboard \<Rightarrow> dashboard" where
  "closeModule c = c\<lparr>selectedModule := None\<rparr>"

definition handleAnswerSelect :: "string \<Rightarrow> string \<Rightarrow> dashboard \<Rightarrow> dashboard" where
  "handleAnswerSelect quizId answer c =
     (case selectedModule c of
        Some m \<Rightarrow>
          if is_read_only m \<or> is_completed m then c
          else c\<lparr>answers := AList.update quizId answer (answers c)\<rparr>
      | None \<Rightarrow> c\<lparr>answers := AList.update quizId answer (answers c)\<rparr>)"

definition retryIncorrectAnswers :: "dashboard \<Rightarrow> dashboard" where
  "retryIncorrectAnswers c =
     (case selectedModule c of
        None \<Rightarrow> c
      | Some m \<Rightarrow>
          if is_read_only m then c
          else c\<lparr>answers := filter (\<lambda>(k, v). k \<notin> set (incorrectQuizzes c)) (answers c),
                 quizResults := filter (\<lambda>(k, v). k \<notin> set (incorrectQuizzes c)) (quizResults c),
                 completedQuizzes :=
                   filter (\<lambda>k. k \<notin> set (incorrectQuizzes c)) (completedQuizzes c),
                 incorrectQuizzes := []\<rparr>)"

definition retryAllQuizzes :: "dashboard \<Rightarrow> dashboard" where
  "retryAllQuizzes c =
     (case selectedModule c of
        None \<Rightarrow> c
      | Some m \<Rightarrow>
          if is_read_only m then c
          else c\<lparr>answers := [], quizResults := [], completedQuizzes := [],
                 incorrectQuizzes := []\<rparr>)"

subsection \<open>Awarding a badge\<close>

definition toUpperCase :: "char \<Rightarrow> char" where
  "toUpperCase ch =
     (let code = (of_char ch :: nat)
      in if 97 \<le> code \<and> code \<le> 122 then char_of (code - 32) else ch)"

definition capitalize :: "string \<Rightarrow> string" where
  "capitalize s = (case s of [] \<Rightarrow> [] | ch # rest \<Rightarrow> toUpperCase ch # rest)"

definition new_badge :: "uuid \<Rightarrow> Module \<Rightarrow> BadgeType" where
  "new_badge uid md =
     \<lparr>b_user_id = uid,
      b_name = capitalize (difficulty md) @ '' Badge'',
      b_description = ''Completed '' @ title md,
      b_icon = ''star'',
      b_module_id = module_id md\<rparr>"

text \<open>
  \<open>awardBadgeMutation\<close> sends one INSERT into \<open>user_badges\<close> without looking at what the
  table holds. The row is stored unless the table was created with the uniqueness
  constraint and already holds a badge of this user for this module; then the database
  answers 23505 and the mutation throws.
\<close>

definition awardBadge :: "uuid \<Rightarrow> Module \<Rightarrow> db \<Rightarrow> error + db" where
  "awardBadge uid md d =
     (if user_badges_constraint d = UniqueUserModule
         \<and> list_ex (\<lambda>b. b_user_id b = uid \<and> b_module_id b = module_id md) (user_badges d)
      then Inl DuplicateKey
      else Inr (d\<lparr>user_badges := user_badges d @ [new_badge uid md]\<rparr>))"

subsection \<open>Completing a module\<close>

text \<open>
  \<open>completeModuleMutation\<close>. The result pairs the way the mutation ends (\<open>None\<close>: it
  resolves; \<open>Some e\<close>: it throws \<open>e\<close>) with the database it leaves behind; the writes
  made before a throw stay. The answer of the \<open>profiles\<close> update is not inspected. The
  dashboard takes \<open>refetchLevel\<close> from the field \<open>refetch\<close> of what \<open>useUserProgress\<close>
  returns, and the hook returns \<open>{ userLevel, badges, loading }\<close>: \<open>refetchLevel\<close> is
  undefined, and \<open>await refetchLevel()\<close> after the badge insert throws a TypeError.
\<close>

definition completeModuleMutation ::
  "Module \<Rightarrow> rat \<Rightarrow> dashboard \<Rightarrow> db \<Rightarrow> error option \<times> db" where
  "completeModuleMutation md score c d =
     (case profile c of
        None \<Rightarrow> (Some NoProfileFound, d)
      | Some p \<Rightarrow>
          (let hasPassingScore = (score \<ge> 85);
               d1 = update_progress_rows (module_id md) (p_id p)
                      (\<lambda>r. r\<lparr>progress_percentage := 100, is_completed := True,
                              is_read_only := True\<rparr>) d;
               modulePoints = points_reward md;
               totalPoints = js_add (or_zero (total_points p)) modulePoints;
               d2 = (case update_total_points (p_id p) totalPoints d1 of
                       Inr written \<Rightarrow> written
                     | Inl e \<Rightarrow> d1)
           in if hasPassingScore
              then (case awardBadge (p_id p) md d2 of
                      Inl e \<Rightarrow> (Some e, d2)
                    | Inr d3 \<Rightarrow> (Some NotAFunction, d3))
              else (None, d2)))"

text \<open>
  \<open>handleCompleteModule\<close> computes the score and runs the mutation. When the mutation
  resolves, \<open>onSuccess\<close> invalidates the queries \<open>modules\<close> and \<open>profile\<close>, which are
  fetched again (the call of \<open>refetchLevel\<close> that follows throws after that). When the
  mutation throws, nothing is fetched again. The state \<open>selectedModule\<close> is not assigned
  in either case.
\<close>

definition handleCompleteModule :: "dashboard \<times> db \<Rightarrow> dashboard \<times> db" where
  "handleCompleteModule s =
     (let c = fst s; d = snd s
      in case (selectedModule c, profile c) of
           (Some m, Some p) \<Rightarrow>
             (case completeModuleMutation m (calculateQuizScore m (answers c)) c d of
                (None, d') \<Rightarrow> (fetch_profile d' (fetch_modules d' c), d')
              | (Some e, d') \<Rightarrow> (c, d'))
         | _ \<Rightarrow> s)"

subsection \<open>Resetting a module for a retake\<close>

definition resetModuleForRetake :: "dashboard \<times> db \<Rightarrow> dashboard \<times> db" where
  "resetModuleForRetake s =
     (let c = fst s; d = snd s
      in case (selectedModule c, profile c) of
           (Some m, Some p) \<Rightarrow>
             (let d' = update_progress_rows (module_id m) (p_id p)
                         (\<lambda>r. r\<lparr>progress_percentage := 0, is_completed := False,
                                 is_read_only := False\<rparr>) d;
                  c' = c\<lparr>answers := [], quizResults := [], completedQuizzes := [],
                         incorrectQuizzes := []\<rparr>
              in (fetch_modules d' c', d'))
         | _ \<Rightarrow> s)"

subsection \<open>Submitting one quiz answer\<close>

text \<open>
  The progress written after a correct answer. With no questions the quotient is
  \<open>Infinity\<close>, and \<open>Math.min(Infinity, 100)\<close> is 100.
\<close>

definition quiz_progress :: "nat \<Rightarrow> nat \<Rightarrow> int" where
  "quiz_progress completedCount quizCount =
     (if quizCount = 0 then 100
      else min \<lfloor>js_mul (js_div (of_nat completedCount) (of_nat quizCount)) 100\<rfloor> 100)"

text \<open>
  \<open>!userAnswer\<close> holds for a missing answer and for the empty string. Without a loaded
  profile both updates filter on \<open>undefined\<close>, fail, and no query is invalidated. With a
  profile, the query \<open>profile\<close> is fetched again when the points were stored, and the
  query \<open>modules\<close> after the percentage was stored.
\<close>

definition submitQuizAnswer :: "QuizQuestion \<Rightarrow> dashboard \<times> db \<Rightarrow> dashboard \<times> db" where
  "submitQuizAnswer quiz s =
     (let c = fst s; d = snd s
      in case selectedModule c of
           None \<Rightarrow> s
         | Some m \<Rightarrow>
             if is_read_only m \<or> is_completed m then s
             else
               (let userAnswer = answer_of (answers c) (q_id quiz)
                in if userAnswer = Missing \<or> userAnswer = Own [] then s
                   else
                     (let isCorrect = (userAnswer = Own (correct_answer quiz));
                          c1 = c\<lparr>quizResults := AList.update (q_id quiz) isCorrect (quizResults c),
                                 completedQuizzes := List.insert (q_id quiz) (completedQuizzes c)\<rparr>
                      in if isCorrect
                         then
                           (let c2 = c1\<lparr>incorrectQuizzes :=
                                            removeAll (q_id quiz) (incorrectQuizzes c)\<rparr>
                            in case profile c of
                                 None \<Rightarrow> (c2, d)
                               | Some p \<Rightarrow>
                                   (let quizPoints = 5;
                                        newPoints = or_zero (total_points p) + quizPoints;
                                        profileAnswer =
                                          update_total_points (p_id p) (Num newPoints) d;
                                        d1 = (case profileAnswer of
                                                Inr written \<Rightarrow> written
                                              | Inl e \<Rightarrow> d);
                                        completedCount = length (completedQuizzes c) + 1;
                                        progressPercentage =
                                          quiz_progress completedCount (length (quizzes m));
                                        d2 = update_progress_rows (module_id m) (p_id p)
                                               (\<lambda>r. r\<lparr>progress_percentage :=
                                                         progressPercentage\<rparr>) d1;
                                        c3 = (case profileAnswer of
                                                Inr written \<Rightarrow> fetch_profile d2 c2
                                              | Inl e \<Rightarrow> c2)
                                    in (fetch_modules d2 c3, d2)))
                         else
                           (c1\<lparr>incorrectQuizzes :=
                                  List.insert (q_id quiz) (incorrectQuizzes c)\<rparr>, d))))"

subsection \<open>Generating modules\<close>

text \<open>
  \<open>generateModulesMutation\<close>. The argument \<open>generated\<close> is the list returned by the
  module generation service; the field \<open>m_id\<close> of its elements is the service's module
  id. On success, and on the duplicate-key error, the query \<open>modules\<close> is fetched again;
  any other error is only reported.
\<close>

definition modulesToInsert :: "uuid \<Rightarrow> Module list \<Rightarrow> Module list" where
  "modulesToInsert uid generated =
     map (\<lambda>md.
            md\<lparr>user_id := uid,
                   module_id := m_id md,
                   points_reward :=
                     to_json (calculatePointsReward (estimated_duration md) (difficulty md)),
                   progress_percentage := 0,
                   is_completed := False,
                   is_read_only := False,
                   quizzes := []\<rparr>) generated"

definition generateModulesMutation :: "uuid \<Rightarrow> Module list \<Rightarrow> db \<Rightarrow> error + db" where
  "generateModulesMutation uid generated d =
     (if generated \<noteq> [] then insert_progress_rows (modulesToInsert uid generated) d
      else Inl NoModulesReturned)"

definition handleGenerateModules ::
  "uuid \<Rightarrow> Module list \<Rightarrow> dashboard \<times> db \<Rightarrow> dashboard \<times> db" where
  "handleGenerateModules uid generated s =
     (let c = fst s; d = snd s
      in case generateModulesMutation uid generated d of
           Inr d' \<Rightarrow> (fetch_modules d' c, d')
         | Inl DuplicateKey \<Rightarrow> (fetch_modules d c, d)
         | Inl e \<Rightarrow> s)"

subsection \<open>Which buttons the module dialog shows\<close>

text \<open>
  The dialog renders "Retake Module" for a read-only module whose score, computed from
  the current \<open>answers\<close>, is below 85, and "Complete Module" for a module that is not
  read-only once \<open>answers\<close> has as many keys as the module has questions.
\<close>

definition retake_shown :: "dashboard \<Rightarrow> bool" where
  "retake_shown c =
     (case selectedModule c of
        None \<Rightarrow> False
      | Some m \<Rightarrow> is_read_only m \<and> calculateQuizScore m (answers c) < 85)"

definition complete_shown :: "dashboard \<Rightarrow> bool" where
  "complete_shown c =
     (case selectedModule c of
        None \<Rightarrow> False
      | Some m \<Rightarrow>
          \<not> is_read_only m \<and> length (remdups (map fst (answers c))) = length (quizzes m))"

section \<open>The module page\<close>

record module_page =
  mp_module :: "Module option"
  mp_progress :: int
  mp_completed :: bool

text \<open>The state of the page when it is mounted.\<close>

definition initial_page :: module_page where
  "initial_page = \<lparr>mp_module = None, mp_progress = 0, mp_completed = False\<rparr>"

text \<open>
  \<open>loadModule\<close> reads the progress row of the signed-in user for the module id of the
  route with \<open>.maybeSingle()\<close>. Without a session, with no row and with several rows
  it assigns nothing and navigates away.
\<close>

definition loadModule :: "uuid option \<Rightarrow> uuid \<Rightarrow> db \<Rightarrow> module_page \<Rightarrow> module_page" where
  "loadModule user moduleId d pg =
     (case user of
        None \<Rightarrow> pg
      | Some u \<Rightarrow>
          (case single (filter (\<lambda>r. module_id r = moduleId \<and> user_id r = u)
                          (user_module_progress d)) of
             None \<Rightarrow> pg
           | Some moduleRow \<Rightarrow>
               pg\<lparr>mp_module := Some moduleRow,
                  mp_progress := progress_percentage moduleRow,
                  mp_completed := is_completed moduleRow\<rparr>))"

text \<open>
  \<open>upsert\<close> without \<open>onConflict\<close> resolves conflicts on the primary key. The row sent
  has no \<open>id\<close>, so it receives a fresh one and goes the way of an insert, with all the
  constraints of the table. The handler does not look at the answer. Columns that the
  row does not mention are empty.
\<close>

definition upsert_row :: "uuid \<Rightarrow> uuid \<Rightarrow> int \<Rightarrow> bool \<Rightarrow> Module" where
  "upsert_row uid mid pct fin =
     \<lparr>m_id = Gen 0, user_id = uid, module_id = mid, title = [],
      difficulty = [], estimated_duration = 0, points_reward = Null,
      progress_percentage = pct, is_completed = fin, is_read_only = False,
      quizzes = []\<rparr>"

definition upsert_user_module_progress :: "uuid \<Rightarrow> uuid \<Rightarrow> int \<Rightarrow> bool \<Rightarrow> db \<Rightarrow> db" where
  "upsert_user_module_progress uid mid pct fin d =
     (case insert_progress_rows [upsert_row uid mid pct fin] d of
        Inr d' \<Rightarrow> d'
      | Inl e \<Rightarrow> d)"

text \<open>
  \<open>updateProgress\<close>. The module id sent is \<open>module.id\<close>, the primary key of the
  progress row that \<open>loadModule\<close> stored, where the table expects the id of a learning
  module. The page state is assigned whatever the database answered.
\<close>

definition updateProgress :: "uuid option \<Rightarrow> int \<Rightarrow> module_page \<times> db \<Rightarrow> module_page \<times> db" where
  "updateProgress user increment s =
     (let pg = fst s; d = snd s
      in case mp_module pg of
           None \<Rightarrow> s
         | Some m \<Rightarrow>
             (case user of
                None \<Rightarrow> s
              | Some u \<Rightarrow>
                  (let newProgress = min (mp_progress pg + increment) 100;
                       isComplete = (newProgress = 100);
                       d' = upsert_user_module_progress u (m_id m) newProgress isComplete d
                   in (pg\<lparr>mp_progress := newProgress, mp_completed := isComplete\<rparr>, d'))))"

section \<open>The module detail page\<close>

record module_detail =
  md_module :: "uuid option"
  md_updating :: bool

text \<open>
  \<open>supabase.auth.getSession()\<close> resolves to \<open>{ data: { session }, error }\<close>. The
  handler binds \<open>sessionData\<close> to the inner object \<open>{ session }\<close> and then reads
  \<open>sessionData?.data?.session?.user?.id\<close>. The inner object has no property \<open>data\<close>,
  so the chain is \<open>undefined\<close> for every session.
\<close>

definition sessionData_data_session_user_id :: "uuid option \<Rightarrow> uuid option" where
  "sessionData_data_session_user_id user = None"

text \<open>
  The table \<open>progress\<close> is not declared in the migration; the upsert is taken to be
  keyed by user and module.
\<close>

definition upsert_progress :: "ProgressRow \<Rightarrow> db \<Rightarrow> db" where
  "upsert_progress row d =
     (let same = (\<lambda>r. pr_user_id r = pr_user_id row \<and> pr_module_id r = pr_module_id row)
      in d\<lparr>progress :=
             (if list_ex same (progress d)
              then map (\<lambda>r. if same r then row else r) (progress d)
              else progress d @ [row])\<rparr>)"

definition handleMarkComplete :: "uuid option \<Rightarrow> module_detail \<times> db \<Rightarrow> module_detail \<times> db" where
  "handleMarkComplete user s =
     (let pg = fst s; d = snd s
      in case md_module pg of
           None \<Rightarrow> s
         | Some mid \<Rightarrow>
             (case sessionData_data_session_user_id user of
                None \<Rightarrow> (pg\<lparr>md_updating := True\<rparr>, d)
              | Some u \<Rightarrow>
                  (pg\<lparr>md_updating := False\<rparr>,
                   upsert_progress
                     \<lparr>pr_user_id = u, pr_module_id = mid, pr_is_completed = True,
                      pr_progress_percentage = 100\<rparr> d)))"

section \<open>The application as a transition system\<close>

record system =
  session :: "uuid option"
  database :: db
  dash :: dashboard
  page :: module_page
  detail :: module_detail

datatype event =
    FetchSession
  | Refresh
  | OpenModule nat "QuizQuestion list"
  | CloseModule
  | AnswerSelect string string
  | RetryIncorrect
  | RetryAll
  | SubmitQuiz QuizQuestion
  | CompleteModule
  | ResetForRetake
  | GenerateModules "Module list"
  | LoadModule uuid
  | UpdateProgress int
  | OpenDetail uuid
  | MarkComplete

definition on_dashboard ::
  "(dashboard \<times> db \<Rightarrow> dashboard \<times> db) \<Rightarrow> system \<Rightarrow> system" where
  "on_dashboard f s = (let r = f (dash s, database s) in s\<lparr>dash := fst r, database := snd r\<rparr>)"

text \<open>
  One user action. \<open>FetchSession\<close> is the session query followed by the queries it
  enables; \<open>Refresh\<close> is the button of the header, which fetches the query \<open>modules\<close>
  again. A button acts only while it is rendered and enabled: a module card opens a
  module of \<open>modulesWithConsistentPoints\<close>; "Submit Answer" belongs to a question of the
  selected module, is hidden for a read-only module and disabled without a selected
  option; "Complete Module" and "Retake Module" are shown as described above. The
  mutation that generates modules is started from the empty learning path and from the
  level-up dialog; here it may run whenever a profile is loaded.
\<close>

fun step :: "event \<Rightarrow> system \<Rightarrow> system" where
  "step FetchSession s =
     (case session s of
        None \<Rightarrow> s
      | Some u \<Rightarrow>
          s\<lparr>dash := fetch_profile (database s)
                      (fetch_modules (database s) ((dash s)\<lparr>userId := Some u\<rparr>))\<rparr>)"
| "step Refresh s = s\<lparr>dash := fetch_modules (database s) (dash s)\<rparr>"
| "step (OpenModule i generated) s =
     (let shown = modulesWithConsistentPoints (modules (dash s))
      in if i < length shown then s\<lparr>dash := openModule (shown ! i) generated (dash s)\<rparr> else s)"
| "step CloseModule s = s\<lparr>dash := closeModule (dash s)\<rparr>"
| "step (AnswerSelect quizId answer) s =
     (case selectedModule (dash s) of
        None \<Rightarrow> s
      | Some m \<Rightarrow>
          if is_read_only m then s
          else s\<lparr>dash := handleAnswerSelect quizId answer (dash s)\<rparr>)"
| "step RetryIncorrect s = s\<lparr>dash := retryIncorrectAnswers (dash s)\<rparr>"
| "step RetryAll s = s\<lparr>dash := retryAllQuizzes (dash s)\<rparr>"
| "step (SubmitQuiz quiz) s =
     (case selectedModule (dash s) of
        None \<Rightarrow> s
      | Some m \<Rightarrow>
          if quiz \<in> set (quizzes m) \<and> \<not> is_read_only m
             \<and> answer_of (answers (dash s)) (q_id quiz) \<noteq> Missing
             \<and> answer_of (answers (dash s)) (q_id quiz) \<noteq> Own []
          then on_dashboard (submitQuizAnswer quiz) s
          else s)"
| "step CompleteModule s =
     (if complete_shown (dash s) then on_dashboard handleCompleteModule s else s)"
| "step ResetForRetake s =
     (if retake_shown (dash s) then on_dashboard resetModuleForRetake s else s)"
| "step (GenerateModules generated) s =
     (case profile (dash s) of
        None \<Rightarrow> s
      | Some p \<Rightarrow> on_dashboard (handleGenerateModules (p_id p) generated) s)"
| "step (LoadModule moduleId) s =
     s\<lparr>page := loadModule (session s) moduleId (database s) (page s)\<rparr>"
| "step (UpdateProgress increment) s =
     (let r = updateProgress (session s) increment (page s, database s)
      in s\<lparr>page := fst r, database := snd r\<rparr>)"
| "step (OpenDetail mid) s = s\<lparr>detail := (detail s)\<lparr>md_module := Some mid\<rparr>\<rparr>"
| "step MarkComplete s =
     (let r = handleMarkComplete (session s) (detail s, database s)
      in s\<lparr>detail := fst r, database := snd r\<rparr>)"

definition run :: "event list \<Rightarrow> system \<Rightarrow> system" where
  "run es s = foldl (\<lambda>s e. step e s) s es"

section \<open>Row-level security\<close>



datatype db_role = anon | authenticated













text \<open>
  Requests against a table, as a list of rows. A row has its primary key \<open>id\<close>, its
  owner column and, where the table has one, the column that refers to a row of a shared
  table. In \<open>profiles\<close> the owner column is the primary key \<open>id\<close> itself. Besides the
  primary keys the migration declares \<open>UNIQUE(user_id, module_id)\<close> on
  \<open>user_module_progress\<close> and \<open>UNIQUE(user_id, achievement_id)\<close> on
  \<open>user_achievements\<close>, and foreign keys from \<open>user_module_progress\<close>,
  \<open>user_quiz_attempts\<close> and \<open>user_achievements\<close> to shared tables. The owner of a
  written row is the identity of the request, a row of \<open>auth.users\<close>.
\<close>

record 'a owned_row =
  row_id :: uuid
  owner_of :: uuid
  ref_of :: uuid
  payload :: 'a











definition owned_by :: "uuid \<Rightarrow> 'a owned_row list \<Rightarrow> 'a owned_row list" where
  "owned_by u rows = filter (\<lambda>r. owner_of r = u) rows"

definition not_owned_by :: "uuid \<Rightarrow> 'a owned_row list \<Rightarrow> 'a owned_row list" where
  "not_owned_by u rows = filter (\<lambda>r. owner_of r \<noteq> u) rows"


section \<open>The reward formula as the specification words it\<close>

text \<open>
  The specification's account of \<open>calculatePointsReward\<close>: the multiplier is 1, 1.5 or
  2 for the three known difficulties and 1 for every other string, and the reward is
  \<open>max(5, round(round(round(duration / 10) * multiplier) / 5) * 5)\<close>.
\<close>

definition claimed_multiplier :: "string \<Rightarrow> rat" where
  "claimed_multiplier k =
     (if k = ''beginner'' then 1
      else if k = ''intermediate'' then 3 / 2
      else if k = ''advanced'' then 2
      else 1)"

definition claimed_points :: "int \<Rightarrow> string \<Rightarrow> int" where
  "claimed_points duration k =
     max 5 (Math_round
              (of_int (Math_round (of_int (Math_round (of_int duration / 10))
                                   * claimed_multiplier k)) / 5) * 5)"

section \<open>A concrete student\<close>

definition alice :: uuid where
  "alice = Lit ''alice''"


definition quiz1 :: QuizQuestion where
  "quiz1 = \<lparr>q_id = ''q1'', question = ''2 + 2'', options = [''3'', ''4''],
            correct_answer = ''4''\<rparr>"

definition quiz2 :: QuizQuestion where
  "quiz2 = \<lparr>q_id = ''q2'', question = ''3 * 3'', options = [''6'', ''9''],
            correct_answer = ''9''\<rparr>"

definition row1 :: Module where
  "row1 = \<lparr>m_id = Gen 0, user_id = alice, module_id = Lit ''m1'', title = ''Sums'',
           difficulty = ''beginner'', estimated_duration = 30, points_reward = Num 5,
           progress_percentage = 0, is_completed = False, is_read_only = False,
           quizzes = []\<rparr>"

definition row2 :: Module where
  "row2 = \<lparr>m_id = Gen 1, user_id = alice, module_id = Lit ''m2'', title = ''Products'',
           difficulty = ''advanced'', estimated_duration = 45, points_reward = Num 10,
           progress_percentage = 0, is_completed = False, is_read_only = False,
           quizzes = []\<rparr>"

definition empty_dashboard :: dashboard where
  "empty_dashboard =
     \<lparr>userId = None, profile = None, modules = [], selectedModule = None, answers = [],
      quizResults = [], completedQuizzes = [], incorrectQuizzes = []\<rparr>"

text \<open>
  Alice is signed in and has just arrived at the application; the database holds her
  profile, the learning modules \<open>m1\<close>, \<open>m2\<close>, \<open>m3\<close> and the given progress rows, and
  \<open>user_badges\<close> is a table without constraints.
\<close>

definition start_with_rows :: "Module list \<Rightarrow> number \<Rightarrow> system" where
  "start_with_rows rows points =
     \<lparr>session = Some alice,
      database =
        \<lparr>profiles = [\<lparr>p_id = alice, total_points = points\<rparr>],
         learning_modules = [Lit ''m1'', Lit ''m2'', Lit ''m3''],
         user_module_progress = rows, progress = [], user_badges = [],
         user_badges_constraint = NoConstraint, next_uuid = length rows\<rparr>,
      dash = empty_dashboard,
      page = initial_page,
      detail = \<lparr>md_module = None, md_updating = False\<rparr>\<rparr>"

definition start_with :: "Module \<Rightarrow> number \<Rightarrow> system" where
  "start_with row points = start_with_rows [row] points"

text \<open>The same state over a \<open>user_badges\<close> table with the uniqueness constraint.\<close>

definition constrained :: "system \<Rightarrow> system" where
  "constrained s = s\<lparr>database := (database s)\<lparr>user_badges_constraint := UniqueUserModule\<rparr>\<rparr>"

text \<open>
  A module with fifty questions, of which alice has answered twenty-eight and selected
  the answer to the twenty-ninth.
\<close>

definition quiz_no :: "nat \<Rightarrow> QuizQuestion" where
  "quiz_no i = \<lparr>q_id = [''abcdefgh'' ! (i div 8), ''abcdefgh'' ! (i mod 8)],
                question = ''2 + 2'', options = [''3'', ''4''], correct_answer = ''4''\<rparr>"

definition answer_and_submit :: "nat \<Rightarrow> event list" where
  "answer_and_submit i = [AnswerSelect (q_id (quiz_no i)) ''4'', SubmitQuiz (quiz_no i)]"

definition twenty_eight_done :: system where
  "twenty_eight_done =
     \<lparr>session = Some alice,
      database =
        \<lparr>profiles = [\<lparr>p_id = alice, total_points = Num 140\<rparr>],
         learning_modules = [Lit ''m1'', Lit ''m2'', Lit ''m3''],
         user_module_progress = [row1\<lparr>progress_percentage := 56\<rparr>],
         progress = [], user_badges = [], user_badges_constraint = NoConstraint,
         next_uuid = 1\<rparr>,
      dash =
        \<lparr>userId = Some alice,
         profile = Some \<lparr>p_id = alice, total_points = Num 140\<rparr>,
         modules = [row1\<lparr>progress_percentage := 56\<rparr>],
         selectedModule = Some (row1\<lparr>quizzes := map quiz_no [0..<50]\<rparr>),
         answers = map (\<lambda>i. (q_id (quiz_no i), ''4'')) [0..<29],
         quizResults = map (\<lambda>i. (q_id (quiz_no i), True)) [0..<28],
         completedQuizzes = rev (map (\<lambda>i. q_id (quiz_no i)) [0..<28]),
         incorrectQuizzes = []\<rparr>,
      page = initial_page,
      detail = \<lparr>md_module = None, md_updating = False\<rparr>\<rparr>"

text \<open>
  Alice has opened her module, received its one question and selected the right answer;
  then she completes the module, closes the dialog and opens the module again.
\<close>

definition ready_to_complete :: system where
  "ready_to_complete =
     run [FetchSession, OpenModule 0 [quiz1], AnswerSelect ''q1'' ''4'']
       (start_with row1 (Num 0))"

definition completed_reopened :: system where
  "completed_reopened = run [CompleteModule, CloseModule, OpenModule 0 [quiz1]] ready_to_complete"

text \<open>Alice has opened her module, received two questions and selected the first answer.\<close>

definition two_questions :: system where
  "two_questions =
     run [FetchSession, OpenModule 0 [quiz1, quiz2], AnswerSelect ''q1'' ''4'']
       (start_with row1 (Num 0))"

text \<open>
  A session that starts without modules: alice generates two, answers one of the two
  questions of the first correctly and the other wrongly, completes the module below the
  threshold, reviews it, retakes it, and visits both module pages.
\<close>

definition generated_batch :: "Module list" where
  "generated_batch =
     [row1\<lparr>m_id := Lit ''m2'', title := ''Products'', difficulty := ''advanced'',
            estimated_duration := 45\<rparr>,
      row1\<lparr>m_id := Lit ''m3'', title := ''Fractions'', difficulty := ''intermediate'',
            estimated_duration := 20\<rparr>]"

definition first_visit :: "event list" where
  "first_visit =
     [FetchSession, GenerateModules generated_batch, OpenModule 0 [quiz1, quiz2],
      AnswerSelect ''q1'' ''4'', SubmitQuiz quiz1, AnswerSelect ''q2'' ''6'', SubmitQuiz quiz2,
      CompleteModule]"

definition long_session :: "event list" where
  "long_session =
     first_visit
     @ [CloseModule, OpenModule 0 [], ResetForRetake, CloseModule, Refresh,
        LoadModule (Lit ''m3''), UpdateProgress 40, UpdateProgress 70,
        OpenDetail (Lit ''m3''), MarkComplete]"

definition no_modules :: system where
  "no_modules = start_with_rows [] (Num 0)"



section \<open>Invariants of the stored rows\<close>

definition unique_progress :: "db \<Rightarrow> bool" where
  "unique_progress d = distinct (map progress_key (user_module_progress d))"

definition completed_means_100 :: "db \<Rightarrow> bool" where
  "completed_means_100 d =
     (list_all (\<lambda>r. is_completed r \<longrightarrow> progress_percentage r = 100) (user_module_progress d)
      \<and> list_all (\<lambda>r. pr_is_completed r \<longrightarrow> pr_progress_percentage r = 100) (progress d))"

definition percent_in_range :: "db \<Rightarrow> bool" where
  "percent_in_range d =
     (list_all (\<lambda>r. 0 \<le> progress_percentage r \<and> progress_percentage r \<le> 100)
        (user_module_progress d)
      \<and> list_all (\<lambda>r. 0 \<le> pr_progress_percentage r \<and> pr_progress_percentage r \<le> 100)
          (progress d))"

definition page_in_range :: "module_page \<Rightarrow> bool" where
  "page_in_range pg = (0 \<le> mp_progress pg \<and> mp_progress pg \<le> 100)"

text \<open>
  The rows that a completion, a quiz submission and \<open>resetModuleForRetake\<close> address:
  selected module, loaded profile.
\<close>

definition matches_selection :: "dashboard \<Rightarrow> Module \<Rightarrow> bool" where
  "matches_selection c r =
     (case (selectedModule c, profile c) of
        (Some m, Some p) \<Rightarrow> module_id r = module_id m \<and> user_id r = p_id p
      | _ \<Rightarrow> False)"

definition badges_for :: "uuid \<Rightarrow> uuid \<Rightarrow> db \<Rightarrow> BadgeType list" where
  "badges_for uid mid d =
     filter (\<lambda>b. b_user_id b = uid \<and> b_module_id b = mid) (user_badges d)"

text \<open>Events other than the submission of a quiz answer.\<close>

fun not_quiz_submission :: "event \<Rightarrow> bool" where
  "not_quiz_submission (SubmitQuiz quiz) = False"
| "not_quiz_submission e = True"

fun nonnegative_increment :: "event \<Rightarrow> bool" where
  "nonnegative_increment (UpdateProgress increment) = (0 \<le> increment)"
| "nonnegative_increment e = True"

section \<open>Rounding to double precision\<close>

lemma pow2_positive: "0 < pow2 e"
  by (simp add: pow2_def)

lemma round_ties_even_nonneg: "0 \<le> x \<Longrightarrow> 0 \<le> round_ties_even x"
proof -
  assume "0 \<le> x"
  then have "0 \<le> \<lfloor>x\<rfloor>" by simp
  then show ?thesis by (simp add: round_ties_even_def Let_def)
qed

lemma binary64_nonneg: "0 \<le> x \<Longrightarrow> 0 \<le> binary64 x"
proof -
  assume x: "0 \<le> x"
  have "0 \<le> x / pow2 e" for e
    using x pow2_positive [of e] by simp
  then have "0 \<le> of_int (round_ties_even (x / pow2 e)) * pow2 e" for e
    using round_ties_even_nonneg [of "x / pow2 e"] pow2_positive [of e] by simp
  then show ?thesis by (simp add: binary64_def Let_def)
qed

lemma pow2_powi: "pow2 e = 2 powi e"
  by (simp add: pow2_def power_int_def inverse_eq_divide power_one_over)

lemma pow2_add: "pow2 (i + j) = pow2 i * pow2 j"
  by (simp add: pow2_powi power_int_add)

lemma pow2_mono: "i \<le> j \<Longrightarrow> pow2 i \<le> pow2 j"
  by (simp add: pow2_powi power_int_increasing)

lemma quotient_of_pos:
  assumes "0 < x"
  shows "0 < fst (quotient_of x) \<and> 0 < snd (quotient_of x)
         \<and> x = of_int (fst (quotient_of x)) / of_int (snd (quotient_of x))"
proof -
  obtain p q where pq: "quotient_of x = (p, q)" by (cases "quotient_of x")
  then have q: "0 < q" by (rule quotient_of_denom_pos)
  from pq have x: "x = of_int p / of_int q" by (simp add: quotient_of_div)
  with assms q have "0 < p" by (simp add: zero_less_divide_iff)
  with q x pq show ?thesis by simp
qed

lemma bitlen_pow2_bounds:
  assumes "0 < p"
  shows "pow2 (bitlen p - 1) \<le> of_int p \<and> (of_int p :: rat) < pow2 (bitlen p)"
proof -
  from bitlen_bounds [OF assms] have lo: "2 ^ nat (bitlen p - 1) \<le> p" and hi: "p < 2 ^ nat (bitlen p)"
    by simp_all
  have b1: "1 \<le> bitlen p" using assms by (simp add: bitlen_alt_def)
  from lo have "(of_int (2 ^ nat (bitlen p - 1)) :: rat) \<le> of_int p" by (simp only: of_int_le_iff)
  moreover from hi have "(of_int p :: rat) < of_int (2 ^ nat (bitlen p))" by (simp only: of_int_less_iff)
  ultimately show ?thesis using b1 by (simp add: pow2_def)
qed

lemma exponent_bounds:
  assumes "x \<noteq> 0"
  shows "pow2 (exponent x) \<le> \<bar>x\<bar> \<and> \<bar>x\<bar> < pow2 (exponent x + 1)"
proof -
  define p where "p = fst (quotient_of \<bar>x\<bar>)"
  define q where "q = snd (quotient_of \<bar>x\<bar>)"
  define k where "k = bitlen p - bitlen q"
  define a where "a = \<bar>x\<bar>"
  from assms have "0 < \<bar>x\<bar>" by simp
  from quotient_of_pos [OF this] have p: "0 < p" and q: "0 < q"
    and x: "a = of_int p / of_int q" by (simp_all add: p_def q_def a_def)
  have ex: "exponent x = (if pow2 k \<le> a then k else k - 1)"
    by (simp add: exponent_def Let_def p_def q_def k_def a_def)
  from bitlen_pow2_bounds [OF p] have plo: "pow2 (bitlen p - 1) \<le> of_int p"
    and phi: "(of_int p :: rat) < pow2 (bitlen p)" by simp_all
  from bitlen_pow2_bounds [OF q] have qlo: "pow2 (bitlen q - 1) \<le> of_int q"
    and qhi: "(of_int q :: rat) < pow2 (bitlen q)" by simp_all
  have qpos: "(0 :: rat) < of_int q" using q by simp
  have upper: "a < pow2 (k + 1)"
  proof -
    have "pow2 (k + 1) * of_int q \<ge> pow2 (k + 1) * pow2 (bitlen q - 1)"
      using qlo pow2_positive [of "k + 1"] by (intro mult_left_mono) simp_all
    moreover have "pow2 (k + 1) * pow2 (bitlen q - 1) = pow2 (bitlen p)"
      by (simp add: pow2_add [symmetric] k_def)
    ultimately have "of_int p < pow2 (k + 1) * of_int q" using phi by simp
    then show ?thesis using qpos by (simp add: x pos_divide_less_eq)
  qed
  have lower: "pow2 (k - 1) \<le> a"
  proof -
    have "pow2 (k - 1) * of_int q \<le> pow2 (k - 1) * pow2 (bitlen q)"
      using qhi pow2_positive [of "k - 1"] by (intro mult_left_mono) simp_all
    moreover have "pow2 (k - 1) * pow2 (bitlen q) = pow2 (bitlen p - 1)"
      by (simp add: pow2_add [symmetric] k_def)
    ultimately have "pow2 (k - 1) * of_int q \<le> of_int p" using plo by simp
    then show ?thesis using qpos by (simp add: x pos_le_divide_eq)
  qed
  have "pow2 (exponent x) \<le> a \<and> a < pow2 (exponent x + 1)"
  proof (cases "pow2 k \<le> a")
    case True
    with upper show ?thesis by (simp add: ex)
  next
    case False
    with lower show ?thesis by (simp add: ex)
  qed
  then show ?thesis by (simp add: a_def)
qed

lemma round_ties_even_near: "\<bar>of_int (round_ties_even y) - y\<bar> \<le> 1 / 2"
proof -
  define r where "r = y - of_int \<lfloor>y\<rfloor>"
  have r: "0 \<le> r" "r < 1" unfolding r_def by linarith+
  have y: "y = of_int \<lfloor>y\<rfloor> + r" by (simp add: r_def)
  consider "r < 1 / 2" | "1 / 2 < r" | "r = 1 / 2" by linarith
  then show ?thesis
  proof cases
    case 1
    then have "round_ties_even y = \<lfloor>y\<rfloor>"
      by (simp add: round_ties_even_def Let_def r_def)
    with 1 r show ?thesis by (simp add: r_def)
  next
    case 2
    then have "round_ties_even y = \<lfloor>y\<rfloor> + 1"
      by (simp add: round_ties_even_def Let_def r_def)
    with 2 r show ?thesis by (simp add: r_def abs_if)
  next
    case 3
    then have "round_ties_even y = \<lfloor>y\<rfloor> \<or> round_ties_even y = \<lfloor>y\<rfloor> + 1"
      by (simp add: round_ties_even_def Let_def r_def)
    with 3 show ?thesis by (auto simp: r_def abs_if)
  qed
qed

text \<open>
  The significand has 53 bits and the result is within half a unit in the last place.
\<close>

lemma binary64_nearest:
  assumes "x \<noteq> 0"
  defines "e \<equiv> exponent x - 52"
  shows "pow2 52 \<le> \<bar>x\<bar> / pow2 e \<and> \<bar>x\<bar> / pow2 e < pow2 53
         \<and> binary64 x = of_int (round_ties_even (x / pow2 e)) * pow2 e
         \<and> \<bar>binary64 x - x\<bar> \<le> pow2 e / 2"
proof -
  have pe: "0 < pow2 e" by (rule pow2_positive)
  from exponent_bounds [OF assms(1)]
  have lo: "pow2 (e + 52) \<le> \<bar>x\<bar>" and hi: "\<bar>x\<bar> < pow2 (e + 52 + 1)"
    by (simp_all add: e_def)
  have a: "pow2 52 \<le> \<bar>x\<bar> / pow2 e"
    using lo pe by (simp add: pow2_add pos_le_divide_eq mult.commute)
  have b: "\<bar>x\<bar> / pow2 e < pow2 53"
  proof -
    have "pow2 (e + 52 + 1) = pow2 53 * pow2 e"
      by (simp add: pow2_add [symmetric])
    with hi pe show ?thesis by (simp add: pos_divide_less_eq)
  qed
  have c: "binary64 x = of_int (round_ties_even (x / pow2 e)) * pow2 e"
    using assms(1) by (simp add: binary64_def e_def Let_def)
  have "of_int (round_ties_even (x / pow2 e)) * pow2 e - x
        = (of_int (round_ties_even (x / pow2 e)) - x / pow2 e) * pow2 e"
    using pe by (simp add: left_diff_distrib)
  then have "\<bar>of_int (round_ties_even (x / pow2 e)) * pow2 e - x\<bar>
        = \<bar>of_int (round_ties_even (x / pow2 e)) - x / pow2 e\<bar> * pow2 e"
    using pe by (simp only: abs_mult abs_of_pos)
  also have "\<dots> \<le> 1 / 2 * pow2 e"
    using round_ties_even_near [of "x / pow2 e"] pe by (intro mult_right_mono) simp_all
  finally have d: "\<bar>binary64 x - x\<bar> \<le> pow2 e / 2" by (simp add: c)
  from a b c d show ?thesis by simp
qed

text \<open>
  The relative error of one rounding is at most \<open>2 ^ - 53\<close>.
\<close>

lemma binary64_relative:
  assumes "0 < x"
  shows "x * (1 - 1 / 2 ^ 53) \<le> binary64 x \<and> binary64 x \<le> x * (1 + 1 / 2 ^ 53)"
proof -
  from assms have nz: "x \<noteq> 0" by simp
  define e where "e = exponent x - 52"
  define u where "u = x / 2 ^ 53"
  have d: "\<bar>binary64 x - x\<bar> \<le> pow2 e / 2"
    unfolding e_def by (rule binary64_nearest [OF nz, THEN conjunct2, THEN conjunct2, THEN conjunct2])
  from exponent_bounds [OF nz] assms have lo: "pow2 (exponent x) \<le> x" by simp
  have "pow2 e = pow2 (exponent x) * pow2 (- 52)"
    by (simp add: e_def pow2_add [symmetric])
  also have "\<dots> = pow2 (exponent x) / 2 ^ 52" by (simp add: pow2_def)
  also have "\<dots> \<le> x / 2 ^ 52" using lo by (simp add: divide_right_mono)
  finally have "pow2 e / 2 \<le> u" by (simp add: u_def)
  with d have "\<bar>binary64 x - x\<bar> \<le> u" by (rule order_trans)
  moreover have "x * (1 - 1 / 2 ^ 53) = x - u" by (simp add: right_diff_distrib u_def)
  moreover have "x * (1 + 1 / 2 ^ 53) = x + u" by (simp add: distrib_left u_def)
  ultimately show ?thesis by (simp only: abs_le_iff) linarith
qed

text \<open>
  Comparing the doubly rounded percentage with 85 gives the same answer as comparing the
  exact quotient: \<open>(k / n) * 100 \<ge> 85\<close> in double precision exactly when
  \<open>20 * k \<ge> 17 * n\<close>, for up to \<open>2 ^ 32\<close> questions.
\<close>

lemma score_threshold:
  fixes k n :: nat
  assumes n: "0 < n" "n \<le> 2 ^ 32" and k: "k \<le> n"
  shows "85 \<le> js_mul (js_div (of_nat k) (of_nat n)) 100 \<longleftrightarrow> 17 * n \<le> 20 * k"
proof -
  define x :: rat where "x = of_nat k / of_nat n"
  define a where "a = binary64 x"
  define b where "b = binary64 (a * 100)"
  define dn :: rat where "dn = 1 - 1 / 2 ^ 53"
  define up :: rat where "up = 1 + 1 / 2 ^ 53"
  define gap :: rat where "gap = 1 / (20 * 2 ^ 32)"
  have dn: "0 < dn" by (simp add: dn_def)
  have up: "0 < up" by (simp add: up_def)
  have b: "js_mul (js_div (of_nat k) (of_nat n)) 100 = b"
    by (simp add: js_mul_def js_div_def b_def a_def x_def)
  have npos: "(0 :: rat) < of_nat n" using n by simp
  have nle: "(of_nat n :: rat) \<le> 2 ^ 32"
  proof -
    from n(2) have "(of_nat n :: rat) \<le> of_nat (2 ^ 32)" by (simp only: of_nat_le_iff)
    then show ?thesis by simp
  qed
  have gap: "gap \<le> 1 / (20 * (of_nat n :: rat))"
    unfolding gap_def using npos nle by (intro divide_left_mono) simp_all
  have x: "20 * of_nat k / (20 * of_nat n :: rat) = x" by (simp add: x_def)
  consider "k = 0" | "0 < k" "20 * k = 17 * n" | "0 < k" "17 * n < 20 * k" | "0 < k" "20 * k < 17 * n"
    by linarith
  then have "85 \<le> b \<longleftrightarrow> 17 * n \<le> 20 * k"
  proof cases
    case 1
    then have "b = 0" by (simp add: b_def a_def x_def binary64_def)
    with 1 n show ?thesis by simp
  next
    case 2
    then have "(of_nat (20 * k) :: rat) = of_nat (17 * n)" by (simp only:)
    then have xe: "x = 17 / 20" using npos by (simp add: x_def field_simps)
    have c: "binary64 (binary64 (17 / 20) * 100) = 85" by code_simp
    have "b = 85" unfolding b_def a_def xe by (rule c)
    with 2 show ?thesis by simp
  next
    case 3
    then have "17 * n + 1 \<le> 20 * k" by simp
    then have "(of_nat (17 * n + 1) :: rat) \<le> of_nat (20 * k)" by (simp only: of_nat_le_iff)
    then have "17 * of_nat n + 1 \<le> 20 * (of_nat k :: rat)" by simp
    then have "(17 * of_nat n + 1) / (20 * of_nat n) \<le> 20 * of_nat k / (20 * of_nat n :: rat)"
      using npos by (intro divide_right_mono) simp_all
    moreover have "(17 * of_nat n + 1) / (20 * of_nat n :: rat) = 17 / 20 + 1 / (20 * of_nat n)"
      using npos by (simp add: add_divide_distrib)
    ultimately have "17 / 20 + 1 / (20 * of_nat n) \<le> x" by (simp only: x)
    with gap have x2: "17 / 20 + gap \<le> x" by linarith
    have lpos: "0 < 17 / 20 + gap" by (simp add: gap_def)
    from this x2 have xpos: "0 < x" by (rule less_le_trans)
    from binary64_relative [OF xpos] have a1: "x * dn \<le> a" by (simp add: a_def dn_def)
    from x2 dn have "(17 / 20 + gap) * dn \<le> x * dn"
      by (intro mult_right_mono) simp_all
    from this a1 have a2: "(17 / 20 + gap) * dn \<le> a" by (rule order_trans)
    from lpos dn have "0 < (17 / 20 + gap) * dn" by simp
    from this a2 have "0 < a" by (rule less_le_trans)
    then have apos: "0 < a * 100" by simp
    from binary64_relative [OF apos] have b1: "a * (100 * dn) \<le> b"
      by (simp add: b_def dn_def mult.assoc)
    from a2 dn have "(17 / 20 + gap) * dn * (100 * dn) \<le> a * (100 * dn)"
      by (intro mult_right_mono) simp_all
    from this b1 have "(17 / 20 + gap) * dn * (100 * dn) \<le> b" by (rule order_trans)
    moreover have "85 \<le> (17 / 20 + gap) * dn * (100 * dn)"
      by (simp add: gap_def dn_def)
    ultimately have "85 \<le> b" by (rule order_trans [rotated])
    with 3 show ?thesis by simp
  next
    case 4
    then have "20 * k + 1 \<le> 17 * n" by simp
    then have "(of_nat (20 * k + 1) :: rat) \<le> of_nat (17 * n)" by (simp only: of_nat_le_iff)
    then have "20 * (of_nat k :: rat) + 1 \<le> 17 * of_nat n" by simp
    then have "20 * (of_nat k :: rat) \<le> 17 * of_nat n - 1" by simp
    then have "20 * of_nat k / (20 * of_nat n :: rat) \<le> (17 * of_nat n - 1) / (20 * of_nat n)"
      using npos by (intro divide_right_mono) simp_all
    moreover have "(17 * of_nat n - 1) / (20 * of_nat n :: rat) = 17 / 20 - 1 / (20 * of_nat n)"
      using npos by (simp add: diff_divide_distrib)
    ultimately have "x \<le> 17 / 20 - 1 / (20 * of_nat n)" by (simp only: x)
    with gap have x2: "x \<le> 17 / 20 - gap" by linarith
    have xpos: "0 < x" using 4(1) npos by (simp add: x_def)
    from binary64_relative [OF xpos] have a0: "x * dn \<le> a" and a1: "a \<le> x * up"
      by (simp_all add: a_def dn_def up_def)
    from xpos dn have "0 < x * dn" by simp
    from this a0 have "0 < a" by (rule less_le_trans)
    then have apos: "0 < a * 100" by simp
    from x2 up have "x * up \<le> (17 / 20 - gap) * up"
      by (intro mult_right_mono) simp_all
    from a1 this have a2: "a \<le> (17 / 20 - gap) * up" by (rule order_trans)
    from binary64_relative [OF apos] have b1: "b \<le> a * (100 * up)"
      by (simp add: b_def up_def mult.assoc)
    from a2 up have "a * (100 * up) \<le> (17 / 20 - gap) * up * (100 * up)"
      by (intro mult_right_mono) simp_all
    from b1 this have "b \<le> (17 / 20 - gap) * up * (100 * up)" by (rule order_trans)
    moreover have "(17 / 20 - gap) * up * (100 * up) < 85"
      by (simp add: gap_def up_def)
    ultimately have "b < 85" by (rule le_less_trans)
    with 4 show ?thesis by simp
  qed
  with b show ?thesis by simp
qed

section \<open>Properties of the duplicate removal\<close>

lemma findIndex_None: "findIndex P xs = None \<longleftrightarrow> (\<forall>x \<in> set xs. \<not> P x)"
  by (induction xs) auto

lemma findIndex_Some:
  "findIndex P xs = Some i \<Longrightarrow> i < length xs \<and> P (xs ! i)"
proof (induction xs arbitrary: i)
  case Nil
  then show ?case by simp
next
  case (Cons x xs)
  then show ?case by (cases i) (auto split: if_splits)
qed

text \<open>A step never changes the sequence of module ids except by appending a new one.\<close>

lemma dedup_step_ids:
  "map module_id (dedup_step acc c) =
     (if module_id c \<in> module_id ` set acc then map module_id acc
      else map module_id acc @ [module_id c])"
proof (cases "findIndex (\<lambda>m. module_id m = module_id c) acc")
  case None
  then have "module_id c \<notin> module_id ` set acc"
    by (auto simp: findIndex_None)
  with None show ?thesis by (simp add: dedup_step_def)
next
  case (Some i)
  then have i: "i < length acc" "module_id (acc ! i) = module_id c"
    using findIndex_Some [OF Some] by auto
  then have mem: "module_id c \<in> module_id ` set acc"
    by (metis imageI nth_mem)
  have "map module_id (acc[i := c]) = map module_id acc"
    using i by (simp add: map_update list_update_same_conv)
  with Some mem show ?thesis by (simp add: dedup_step_def Let_def)
qed

lemma dedup_step_distinct:
  "distinct (map module_id acc) \<Longrightarrow> distinct (map module_id (dedup_step acc c))"
  by (simp add: dedup_step_ids)

lemma dedup_step_subset: "set (dedup_step acc c) \<subseteq> insert c (set acc)"
  using set_update_subset_insert [of acc _ c]
  by (auto simp: dedup_step_def Let_def split: option.splits)

lemma foldl_dedup_distinct:
  "distinct (map module_id acc) \<Longrightarrow> distinct (map module_id (foldl dedup_step acc data))"
  by (induction data arbitrary: acc) (simp_all add: dedup_step_distinct)

lemma foldl_dedup_subset: "set (foldl dedup_step acc data) \<subseteq> set acc \<union> set data"
proof (induction data arbitrary: acc)
  case Nil
  then show ?case by simp
next
  case (Cons c data)
  have "set (foldl dedup_step (dedup_step acc c) data) \<subseteq> set (dedup_step acc c) \<union> set data"
    by (rule Cons.IH)
  with dedup_step_subset [of acc c] show ?case by auto
qed

lemma dedup_step_fresh:
  "module_id c \<notin> module_id ` set acc \<Longrightarrow> dedup_step acc c = acc @ [c]"
proof -
  assume "module_id c \<notin> module_id ` set acc"
  then have "findIndex (\<lambda>m. module_id m = module_id c) acc = None"
    unfolding findIndex_None by (metis imageI)
  then show ?thesis by (simp add: dedup_step_def)
qed

lemma foldl_dedup_fixed:
  "distinct (map module_id (acc @ xs)) \<Longrightarrow> foldl dedup_step acc xs = acc @ xs"
proof (induction xs arbitrary: acc)
  case Nil
  then show ?case by simp
next
  case (Cons x xs)
  from Cons.prems have fresh: "module_id x \<notin> module_id ` set acc" by auto
  from Cons.prems have "distinct (map module_id ((acc @ [x]) @ xs))" by simp
  then have "foldl dedup_step (acc @ [x]) xs = (acc @ [x]) @ xs" by (rule Cons.IH)
  with dedup_step_fresh [OF fresh] show ?case by simp
qed

text \<open>
  Claim C10. For every list of progress rows, the duplicate removal of the modules
  query returns a list in which each module id occurs at most once, every returned row
  is one of the input rows, and removing duplicates from the result changes nothing.
\<close>

theorem uniqueModules_dedup:
  "distinct (map module_id (uniqueModules data))
   \<and> set (uniqueModules data) \<subseteq> set data
   \<and> uniqueModules (uniqueModules data) = uniqueModules data"
proof -
  have d: "distinct (map module_id (uniqueModules data))"
    unfolding uniqueModules_def by (rule foldl_dedup_distinct) simp
  have s: "set (uniqueModules data) \<subseteq> set data"
    unfolding uniqueModules_def using foldl_dedup_subset [of "[]" data] by simp
  have "foldl dedup_step [] (uniqueModules data) = [] @ uniqueModules data"
    by (rule foldl_dedup_fixed) (simp add: d)
  then have f: "uniqueModules (uniqueModules data) = uniqueModules data"
    by (simp add: uniqueModules_def)
  from d s f show ?thesis by simp
qed

section \<open>Effects of the database operations\<close>

lemma update_progress_rows_fields [simp]:
  "profiles (update_progress_rows mid uid f d) = profiles d"
  "learning_modules (update_progress_rows mid uid f d) = learning_modules d"
  "user_badges (update_progress_rows mid uid f d) = user_badges d"
  "user_badges_constraint (update_progress_rows mid uid f d) = user_badges_constraint d"
  "progress (update_progress_rows mid uid f d) = progress d"
  "next_uuid (update_progress_rows mid uid f d) = next_uuid d"
  "user_module_progress (update_progress_rows mid uid f d) =
     map (\<lambda>r. if module_id r = mid \<and> user_id r = uid then f r else r) (user_module_progress d)"
  by (simp_all add: update_progress_rows_def)

lemma update_total_points_Inr:
  "update_total_points pid v d = Inr w \<Longrightarrow>
     user_module_progress w = user_module_progress d \<and> progress w = progress d
     \<and> user_badges w = user_badges d \<and> learning_modules w = learning_modules d
     \<and> user_badges_constraint w = user_badges_constraint d \<and> next_uuid w = next_uuid d
     \<and> profiles w =
         map (\<lambda>p. if p_id p = pid then p\<lparr>total_points := to_json v\<rparr> else p) (profiles d)"
  by (cases v) (auto simp: update_total_points_def split: if_splits)

lemma update_total_points_Inl:
  "update_total_points pid v d = Inl e \<Longrightarrow>
     e = NumericValueOutOfRange \<and> (\<exists>n. v = Num n \<and> \<not> int4 n)"
  by (cases v) (auto simp: update_total_points_def split: if_splits)

lemma update_total_points_Num:
  "int4 n \<Longrightarrow>
     update_total_points pid (Num n) d =
       Inr (d\<lparr>profiles :=
                map (\<lambda>p. if p_id p = pid then p\<lparr>total_points := Num n\<rparr> else p) (profiles d)\<rparr>)"
  by (simp add: update_total_points_def)

lemma awardBadge_Inr:
  "awardBadge uid m d = Inr w \<Longrightarrow>
     user_module_progress w = user_module_progress d \<and> progress w = progress d
     \<and> profiles w = profiles d \<and> learning_modules w = learning_modules d
     \<and> user_badges_constraint w = user_badges_constraint d \<and> next_uuid w = next_uuid d
     \<and> user_badges w = user_badges d @ [new_badge uid m]"
  by (auto simp: awardBadge_def split: if_splits)

lemma awardBadge_unconstrained:
  "user_badges_constraint d = NoConstraint \<Longrightarrow>
     awardBadge uid m d = Inr (d\<lparr>user_badges := user_badges d @ [new_badge uid m]\<rparr>)"
  by (simp add: awardBadge_def)

text \<open>The progress tables after the update of the points, whatever its answer.\<close>

lemma after_points_tables:
  "user_module_progress (case update_total_points pid v d of Inr w \<Rightarrow> w | Inl e \<Rightarrow> d)
     = user_module_progress d
   \<and> progress (case update_total_points pid v d of Inr w \<Rightarrow> w | Inl e \<Rightarrow> d) = progress d
   \<and> user_badges (case update_total_points pid v d of Inr w \<Rightarrow> w | Inl e \<Rightarrow> d)
       = user_badges d
   \<and> user_badges_constraint (case update_total_points pid v d of Inr w \<Rightarrow> w | Inl e \<Rightarrow> d)
       = user_badges_constraint d"
  by (cases "update_total_points pid v d") (auto dest: update_total_points_Inr)

lemma matches_selection_key:
  "selectedModule c = Some m \<Longrightarrow> profile c = Some p \<Longrightarrow>
     matches_selection c = (\<lambda>r. progress_key r = (p_id p, module_id m))"
  by (auto simp: matches_selection_def progress_key_def fun_eq_iff)

lemma matches_selection_none:
  "selectedModule c = None \<or> profile c = None \<Longrightarrow> matches_selection c = (\<lambda>r. False)"
  by (auto simp: matches_selection_def fun_eq_iff split: option.splits)

lemma matches_selection_Some:
  "selectedModule c = Some m \<Longrightarrow> profile c = Some p \<Longrightarrow>
     matches_selection c r \<longleftrightarrow> module_id r = module_id m \<and> user_id r = p_id p"
  by (simp add: matches_selection_def)

section \<open>Database effect of each handler\<close>

lemma completeModuleMutation_tables:
  assumes "profile c = Some p"
  shows "user_module_progress (snd (completeModuleMutation m s c d)) =
           map (\<lambda>r. if module_id r = module_id m \<and> user_id r = p_id p
                     then r\<lparr>progress_percentage := 100, is_completed := True,
                            is_read_only := True\<rparr>
                     else r) (user_module_progress d)
         \<and> progress (snd (completeModuleMutation m s c d)) = progress d"
proof -
  let ?d1 = "update_progress_rows (module_id m) (p_id p)
               (\<lambda>r. r\<lparr>progress_percentage := 100, is_completed := True, is_read_only := True\<rparr>) d"
  let ?v = "js_add (or_zero (total_points p)) (points_reward m)"
  let ?d2 = "case update_total_points (p_id p) ?v ?d1 of Inr w \<Rightarrow> w | Inl e \<Rightarrow> ?d1"
  have d2: "user_module_progress ?d2 = user_module_progress ?d1 \<and> progress ?d2 = progress ?d1"
    using after_points_tables [where pid = "p_id p" and v = ?v and d = ?d1] by simp
  have "snd (completeModuleMutation m s c d) = ?d2
        \<or> awardBadge (p_id p) m ?d2 = Inr (snd (completeModuleMutation m s c d))"
    using assms by (auto simp: completeModuleMutation_def Let_def split: sum.splits)
  then show ?thesis
  proof
    assume "snd (completeModuleMutation m s c d) = ?d2"
    with d2 show ?thesis by simp
  next
    assume "awardBadge (p_id p) m ?d2 = Inr (snd (completeModuleMutation m s c d))"
    from awardBadge_Inr [OF this] d2 show ?thesis by simp
  qed
qed

lemma handleCompleteModule_snd:
  "snd (handleCompleteModule (c, d)) =
     (case (selectedModule c, profile c) of
        (Some m, Some p) \<Rightarrow> snd (completeModuleMutation m (calculateQuizScore m (answers c)) c d)
      | _ \<Rightarrow> d)"
  by (auto simp: handleCompleteModule_def Let_def split: option.splits prod.splits)

lemma handleCompleteModule_tables:
  "user_module_progress (snd (handleCompleteModule (c, d))) =
     map (\<lambda>r. if matches_selection c r
               then r\<lparr>progress_percentage := 100, is_completed := True, is_read_only := True\<rparr>
               else r) (user_module_progress d)
   \<and> progress (snd (handleCompleteModule (c, d))) = progress d"
proof (cases "selectedModule c")
  case None
  then show ?thesis by (simp add: handleCompleteModule_snd matches_selection_none)
next
  case (Some m)
  show ?thesis
  proof (cases "profile c")
    case None
    with Some show ?thesis by (simp add: handleCompleteModule_snd matches_selection_none)
  next
    case (Some p)
    from completeModuleMutation_tables [OF Some, of m "calculateQuizScore m (answers c)" d]
    show ?thesis
      using \<open>selectedModule c = Some m\<close> Some
      by (simp add: handleCompleteModule_snd matches_selection_def)
  qed
qed

lemma resetModuleForRetake_db:
  "snd (resetModuleForRetake (c, d)) =
     (case (selectedModule c, profile c) of
        (Some m, Some p) \<Rightarrow>
          update_progress_rows (module_id m) (p_id p)
            (\<lambda>r. r\<lparr>progress_percentage := 0, is_completed := False, is_read_only := False\<rparr>) d
      | _ \<Rightarrow> d)"
  by (simp add: resetModuleForRetake_def Let_def split: option.splits)

lemma resetModuleForRetake_tables:
  "user_module_progress (snd (resetModuleForRetake (c, d))) =
     map (\<lambda>r. if matches_selection c r
               then r\<lparr>progress_percentage := 0, is_completed := False, is_read_only := False\<rparr>
               else r) (user_module_progress d)
   \<and> progress (snd (resetModuleForRetake (c, d))) = progress d"
  by (simp add: resetModuleForRetake_db matches_selection_def split: option.splits)

text \<open>
  A quiz submission either leaves the progress rows alone or writes one percentage into
  the rows of the selected module and the loaded profile.
\<close>

lemma submitQuizAnswer_tables:
  "progress (snd (submitQuizAnswer quiz (c, d))) = progress d
   \<and> (user_module_progress (snd (submitQuizAnswer quiz (c, d))) = user_module_progress d
      \<or> (\<exists>m. selectedModule c = Some m \<and>
            user_module_progress (snd (submitQuizAnswer quiz (c, d))) =
              map (\<lambda>r. if matches_selection c r
                        then r\<lparr>progress_percentage :=
                                 quiz_progress (length (completedQuizzes c) + 1)
                                   (length (quizzes m))\<rparr>
                        else r) (user_module_progress d)))"
proof (cases "selectedModule c")
  case None
  then show ?thesis by (simp add: submitQuizAnswer_def)
next
  case (Some m)
  show ?thesis
  proof (cases "profile c")
    case None
    with Some show ?thesis by (simp add: submitQuizAnswer_def Let_def)
  next
    case (Some p)
    let ?v = "Num (or_zero (total_points p) + 5)"
    from after_points_tables [where pid = "p_id p" and v = ?v and d = d]
    show ?thesis
      using \<open>selectedModule c = Some m\<close> Some
      by (simp add: submitQuizAnswer_def Let_def matches_selection_def)
  qed
qed

text \<open>The submission of a correct answer to a question of an open module.\<close>

lemma submitQuizAnswer_correct:
  assumes "selectedModule c = Some m" and "profile c = Some p"
    and "\<not> is_read_only m" and "\<not> is_completed m"
    and "map_of (answers c) (q_id quiz) = Some (correct_answer quiz)"
    and "correct_answer quiz \<noteq> []"
  shows "user_module_progress (snd (submitQuizAnswer quiz (c, d))) =
           map (\<lambda>r. if matches_selection c r
                     then r\<lparr>progress_percentage :=
                              quiz_progress (length (completedQuizzes c) + 1)
                                (length (quizzes m))\<rparr>
                     else r) (user_module_progress d)"
proof -
  let ?v = "Num (or_zero (total_points p) + 5)"
  from assms(5) have a: "answer_of (answers c) (q_id quiz) = Own (correct_answer quiz)"
    by (simp add: answer_of_def)
  from after_points_tables [where pid = "p_id p" and v = ?v and d = d] show ?thesis
    using assms(1-4,6) a by (simp add: submitQuizAnswer_def Let_def matches_selection_def)
qed

section \<open>Inserting progress rows\<close>

lemma assign_ids_map:
  "(\<And>r k. g (r\<lparr>m_id := k\<rparr>) = g r) \<Longrightarrow> map g (assign_ids n rs) = map g rs"
  by (induction rs arbitrary: n) simp_all

lemma assign_ids_list_all:
  "(\<And>r k. P (r\<lparr>m_id := k\<rparr>) = P r) \<Longrightarrow> list_all P (assign_ids n rs) = list_all P rs"
  by (induction rs arbitrary: n) simp_all

lemma progress_key_update [simp]:
  "progress_key (r\<lparr>progress_percentage := a\<rparr>) = progress_key r"
  "progress_key (r\<lparr>is_completed := b\<rparr>) = progress_key r"
  "progress_key (r\<lparr>is_read_only := b\<rparr>) = progress_key r"
  "progress_key (r\<lparr>m_id := k\<rparr>) = progress_key r"
  by (simp_all add: progress_key_def)

lemma assign_ids_keys: "map progress_key (assign_ids n rs) = map progress_key rs"
  by (rule assign_ids_map) simp

lemma insert_rows_Some: "insert_rows table rows = Some stored \<Longrightarrow> stored = table @ rows"
proof (induction rows arbitrary: table)
  case Nil
  then show ?case by simp
next
  case (Cons r rows)
  from Cons.prems have "insert_rows (table @ [r]) rows = Some stored"
    by (simp split: if_splits)
  from Cons.IH [OF this] show ?case by simp
qed

text \<open>
  On a table without duplicates the rows are stored exactly when table and rows together
  are without duplicates.
\<close>

lemma insert_rows_iff:
  "distinct (map progress_key table) \<Longrightarrow>
     insert_rows table rows = Some (table @ rows)
     \<longleftrightarrow> distinct (map progress_key (table @ rows))"
proof (induction rows arbitrary: table)
  case Nil
  then show ?case by simp
next
  case (Cons r rows)
  show ?case
  proof (cases "progress_key r \<in> set (map progress_key table)")
    case True
    then show ?thesis by auto
  next
    case False
    with Cons.prems have "distinct (map progress_key (table @ [r]))" by simp
    from Cons.IH [OF this] False show ?thesis by simp
  qed
qed

lemma insert_rows_None:
  "distinct (map progress_key table) \<Longrightarrow>
     insert_rows table rows = None \<longleftrightarrow> \<not> distinct (map progress_key (table @ rows))"
proof -
  assume d: "distinct (map progress_key table)"
  have "insert_rows table rows = None \<longleftrightarrow> insert_rows table rows \<noteq> Some (table @ rows)"
    using insert_rows_Some [of table rows] by (cases "insert_rows table rows") auto
  with insert_rows_iff [OF d, of rows] show ?thesis by simp
qed

lemma insert_progress_rows_Inr:
  assumes "unique_progress d" and "insert_progress_rows rows d = Inr d'"
  shows "user_module_progress d' = user_module_progress d @ assign_ids (next_uuid d) rows
     \<and> profiles d' = profiles d \<and> user_badges d' = user_badges d \<and> progress d' = progress d
     \<and> unique_progress d'
     \<and> list_all (\<lambda>r. module_id r \<in> set (learning_modules d)) rows"
proof -
  from assms(2) obtain stored where
    s: "insert_rows (user_module_progress d) (assign_ids (next_uuid d) rows) = Some stored"
    and fk: "list_all (\<lambda>r. module_id r \<in> set (learning_modules d)) rows"
    and d': "d' = d\<lparr>user_module_progress := stored, next_uuid := next_uuid d + length rows\<rparr>"
    by (auto simp: insert_progress_rows_def split: if_splits option.splits)
  from insert_rows_Some [OF s]
  have st: "stored = user_module_progress d @ assign_ids (next_uuid d) rows" .
  from assms(1) have "distinct (map progress_key (user_module_progress d))"
    by (simp add: unique_progress_def)
  from insert_rows_iff [OF this, of "assign_ids (next_uuid d) rows"] s st
  have "distinct (map progress_key stored)" by simp
  with st fk d' show ?thesis by (simp add: unique_progress_def)
qed

lemma upsert_user_module_progress_cases:
  assumes "unique_progress d"
  shows "upsert_user_module_progress uid mid pct fin d = d
   \<or> (user_module_progress (upsert_user_module_progress uid mid pct fin d)
         = user_module_progress d @ [(upsert_row uid mid pct fin)\<lparr>m_id := Gen (next_uuid d)\<rparr>]
       \<and> profiles (upsert_user_module_progress uid mid pct fin d) = profiles d
       \<and> user_badges (upsert_user_module_progress uid mid pct fin d) = user_badges d
       \<and> progress (upsert_user_module_progress uid mid pct fin d) = progress d
       \<and> unique_progress (upsert_user_module_progress uid mid pct fin d))"
proof (cases "insert_progress_rows [upsert_row uid mid pct fin] d")
  case (Inl e)
  then show ?thesis by (simp add: upsert_user_module_progress_def)
next
  case (Inr d')
  from insert_progress_rows_Inr [OF assms Inr] Inr show ?thesis
    by (simp add: upsert_user_module_progress_def)
qed

lemma handleGenerateModules_snd:
  "snd (handleGenerateModules uid g (c, d)) = d \<or>
   insert_progress_rows (modulesToInsert uid g) d = Inr (snd (handleGenerateModules uid g (c, d)))"
  by (auto simp: handleGenerateModules_def generateModulesMutation_def Let_def
      split: sum.splits error.splits)

lemma updateProgress_snd:
  "snd (updateProgress user inc (pg, d)) = d \<or>
   (\<exists>u m. user = Some u \<and> mp_module pg = Some m \<and>
      snd (updateProgress user inc (pg, d)) =
        upsert_user_module_progress u (m_id m) (min (mp_progress pg + inc) 100)
          (min (mp_progress pg + inc) 100 = 100) d)"
  by (auto simp: updateProgress_def Let_def split: option.splits)

lemma updateProgress_fst:
  "mp_progress (fst (updateProgress user inc (pg, d))) = mp_progress pg \<or>
   mp_progress (fst (updateProgress user inc (pg, d))) = min (mp_progress pg + inc) 100"
  by (auto simp: updateProgress_def Let_def split: option.splits)

lemma handleMarkComplete_snd: "snd (handleMarkComplete user (pg, d)) = d"
  by (simp add: handleMarkComplete_def sessionData_data_session_user_id_def Let_def split: option.splits)

lemma run_Cons: "run (e # es) s = run es (step e s)"
  by (simp add: run_def)

lemma run_Nil: "run [] s = s"
  by (simp add: run_def)

lemma run_append: "run (es @ fs) s = run fs (run es s)"
  by (simp add: run_def)

section \<open>Completing a module: score, badge and points\<close>

lemma answer_of_Own: "answer_of a k = Own v \<longleftrightarrow> map_of a k = Some v"
  by (simp add: answer_of_def split: option.splits)

lemma calculateQuizScore_eq:
  "calculateQuizScore m a =
     (if quizzes m = [] then 0
      else js_mul
             (js_div (of_nat (length (filter (\<lambda>q. map_of a (q_id q) = Some (correct_answer q))
                                        (quizzes m))))
                     (of_nat (length (quizzes m)))) 100)"
  by (simp add: calculateQuizScore_def Let_def answer_of_Own)

text \<open>
  The score passes the threshold exactly when at least 85 percent of the questions have
  the correct answer recorded.
\<close>

lemma passing_score_exact:
  assumes "length (quizzes m) \<le> 2 ^ 32"
  shows "85 \<le> calculateQuizScore m a \<longleftrightarrow>
         quizzes m \<noteq> []
         \<and> 17 * length (quizzes m)
             \<le> 20 * length (filter (\<lambda>q. map_of a (q_id q) = Some (correct_answer q)) (quizzes m))"
proof (cases "quizzes m = []")
  case True
  then show ?thesis by (simp add: calculateQuizScore_eq)
next
  case False
  then have "0 < length (quizzes m)" by simp
  from score_threshold [OF this assms length_filter_le] False
  show ?thesis by (simp only: calculateQuizScore_eq if_False simp_thms)
qed

text \<open>
  What a completion does when the profile held by the page is the stored row, the reward
  and the total are numbers and their sum is an INTEGER: the stored total grows by the
  reward whatever the score, and, the table accepting it, a badge is stored exactly when
  at least 85 percent of the questions have the correct answer recorded.
\<close>

lemma completion_with_current_profile:
  assumes sel: "selectedModule c = Some m" and prof: "profile c = Some p"
    and stored: "p \<in> set (profiles d)" and ids: "distinct (map p_id (profiles d))"
    and total: "total_points p = Num n" and reward: "points_reward m = Num r"
    and range: "int4 (n + r)" and table: "user_badges_constraint d = NoConstraint"
    and size: "length (quizzes m) \<le> 2 ^ 32"
  defines "d' \<equiv> snd (handleCompleteModule (c, d))"
  shows "profiles d' = map (\<lambda>q. if q = p then q\<lparr>total_points := Num (n + r)\<rparr> else q) (profiles d)"
    and "user_badges d' =
           (if quizzes m \<noteq> []
               \<and> 17 * length (quizzes m)
                   \<le> 20 * length (filter (\<lambda>q. map_of (answers c) (q_id q)
                                                 = Some (correct_answer q)) (quizzes m))
            then user_badges d @ [new_badge (p_id p) m]
            else user_badges d)"
proof -
  let ?d1 = "update_progress_rows (module_id m) (p_id p)
               (\<lambda>r. r\<lparr>progress_percentage := 100, is_completed := True, is_read_only := True\<rparr>) d"
  let ?d2 = "?d1\<lparr>profiles := map (\<lambda>q. if p_id q = p_id p then q\<lparr>total_points := Num (n + r)\<rparr>
                                     else q) (profiles ?d1)\<rparr>"
  have same: "\<And>q. q \<in> set (profiles d) \<Longrightarrow> p_id q = p_id p \<longleftrightarrow> q = p"
    using stored ids by (auto simp: distinct_map inj_on_def)
  have pts: "update_total_points (p_id p) (js_add (or_zero (total_points p)) (points_reward m)) ?d1
             = Inr ?d2"
    using total reward range by (simp add: update_total_points_Num)
  have tab: "user_badges_constraint ?d2 = NoConstraint"
    using table by simp
  have d': "d' = (if 85 \<le> calculateQuizScore m (answers c)
                  then ?d2\<lparr>user_badges := user_badges ?d2 @ [new_badge (p_id p) m]\<rparr>
                  else ?d2)"
    unfolding d'_def using sel prof pts awardBadge_unconstrained [OF tab, of "p_id p" m]
    by (simp add: handleCompleteModule_def completeModuleMutation_def Let_def)
  have "profiles d' = map (\<lambda>q. if p_id q = p_id p then q\<lparr>total_points := Num (n + r)\<rparr> else q)
                        (profiles d)"
    by (simp add: d')
  also have "\<dots> = map (\<lambda>q. if q = p then q\<lparr>total_points := Num (n + r)\<rparr> else q) (profiles d)"
    using same by (intro map_cong) auto
  finally show "profiles d' = map (\<lambda>q. if q = p then q\<lparr>total_points := Num (n + r)\<rparr> else q)
                   (profiles d)" .
  show "user_badges d' =
           (if quizzes m \<noteq> []
               \<and> 17 * length (quizzes m)
                   \<le> 20 * length (filter (\<lambda>q. map_of (answers c) (q_id q)
                                                 = Some (correct_answer q)) (quizzes m))
            then user_badges d @ [new_badge (p_id p) m]
            else user_badges d)"
    using passing_score_exact [OF size, of "answers c"] by (simp add: d')
qed

text \<open>
  Claim C2. Alice has two modules, with rewards 20 and 10, and no points. She completes
  the first with score 100: a badge is stored and her stored total is 20. The mutation
  throws at \<open>await refetchLevel()\<close>, so the profile held by the page is not fetched
  again and still says 0. She completes the second module, again with score 100: the
  page writes \<open>0 + 10\<close>, and her stored total goes from 20 to 10, where adding the
  reward gives 30.
\<close>

theorem reward_not_added_to_stored_total:
  "map total_points (profiles (database
     (run [FetchSession, OpenModule 1 [quiz1], AnswerSelect ''q1'' ''4'', CompleteModule]
        (start_with_rows [row1\<lparr>points_reward := Num 20\<rparr>, row2] (Num 0)))))
     = [Num 20]
   \<and> map total_points (profiles (database
     (run [FetchSession, OpenModule 1 [quiz1], AnswerSelect ''q1'' ''4'', CompleteModule,
           CloseModule, OpenModule 0 [quiz2], AnswerSelect ''q2'' ''9'', CompleteModule]
        (start_with_rows [row1\<lparr>points_reward := Num 20\<rparr>, row2] (Num 0)))))
     = [Num 10]
   \<and> map b_module_id (user_badges (database
     (run [FetchSession, OpenModule 1 [quiz1], AnswerSelect ''q1'' ''4'', CompleteModule,
           CloseModule, OpenModule 0 [quiz2], AnswerSelect ''q2'' ''9'', CompleteModule]
        (start_with_rows [row1\<lparr>points_reward := Num 20\<rparr>, row2] (Num 0)))))
     = [Lit ''m1'', Lit ''m2'']"
  by code_simp

section \<open>Resetting a module: what changes\<close>

lemma distinct_filter_key:
  "distinct (map f xs) \<Longrightarrow> length (filter (\<lambda>r. f r = k) xs) \<le> 1"
proof (induction xs)
  case Nil
  then show ?case by simp
next
  case (Cons x xs)
  show ?case
  proof (cases "f x = k")
    case True
    with Cons.prems have "\<forall>r \<in> set xs. f r \<noteq> k"
      by (metis distinct.simps(2) imageI list.simps(9) list.set_map)
    then have "filter (\<lambda>r. f r = k) xs = []" by (simp add: filter_empty_conv)
    with True show ?thesis by simp
  next
    case False
    with Cons show ?thesis by simp
  qed
qed

text \<open>
  Claim C8. \<open>resetModuleForRetake\<close> leaves the profiles (and with them every
  \<open>total_points\<close>) and all badge rows unchanged; in \<open>user_module_progress\<close> it rewrites
  exactly the rows of the selected module and the loaded profile's id, and there only the
  fields \<open>progress_percentage\<close>, \<open>is_completed\<close> and \<open>is_read_only\<close>; every other row is
  the row it was. Under the uniqueness constraint at most one row is addressed.
\<close>

theorem resetModuleForRetake_frame:
  "profiles (snd (resetModuleForRetake (c, d))) = profiles d
   \<and> user_badges (snd (resetModuleForRetake (c, d))) = user_badges d
   \<and> progress (snd (resetModuleForRetake (c, d))) = progress d
   \<and> user_module_progress (snd (resetModuleForRetake (c, d))) =
       map (\<lambda>r. if matches_selection c r
                 then r\<lparr>progress_percentage := 0, is_completed := False, is_read_only := False\<rparr>
                 else r) (user_module_progress d)
   \<and> (unique_progress d \<longrightarrow> length (filter (matches_selection c) (user_module_progress d)) \<le> 1)"
proof -
  have frame: "profiles (snd (resetModuleForRetake (c, d))) = profiles d
      \<and> user_badges (snd (resetModuleForRetake (c, d))) = user_badges d
      \<and> progress (snd (resetModuleForRetake (c, d))) = progress d"
    by (simp add: resetModuleForRetake_db split: option.splits)
  have rows: "user_module_progress (snd (resetModuleForRetake (c, d))) =
       map (\<lambda>r. if matches_selection c r
                 then r\<lparr>progress_percentage := 0, is_completed := False, is_read_only := False\<rparr>
                 else r) (user_module_progress d)"
    by (simp add: resetModuleForRetake_db matches_selection_def split: option.splits)
  have one: "unique_progress d \<longrightarrow> length (filter (matches_selection c) (user_module_progress d)) \<le> 1"
  proof (cases "selectedModule c"; cases "profile c")
    fix m p
    assume "selectedModule c = Some m" "profile c = Some p"
    then show ?thesis
      using distinct_filter_key [of progress_key "user_module_progress d" "(p_id p, module_id m)"]
      by (simp add: matches_selection_key unique_progress_def)
  qed (simp_all add: matches_selection_none)
  from frame rows one show ?thesis by simp
qed

text \<open>
  The theorem at work on the state in which alice has completed her module and opened it
  again.
\<close>

theorem resetModuleForRetake_frame_witness:
  "unique_progress (database completed_reopened)
   \<and> length (filter (matches_selection (dash completed_reopened))
               (user_module_progress (database completed_reopened))) \<le> 1
   \<and> profiles (snd (resetModuleForRetake (dash completed_reopened, database completed_reopened)))
       = profiles (database completed_reopened)
   \<and> user_badges (snd (resetModuleForRetake (dash completed_reopened, database completed_reopened)))
       = user_badges (database completed_reopened)"
proof -
  have u: "unique_progress (database completed_reopened)"
    by code_simp
  from resetModuleForRetake_frame [of "dash completed_reopened" "database completed_reopened"] u
  show ?thesis by blast
qed

section \<open>One progress row per user and module\<close>

lemma map_key_update:
  "(\<And>r. progress_key (f r) = progress_key r) \<Longrightarrow>
     map (progress_key \<circ> (\<lambda>r. if P r then f r else r)) xs = map progress_key xs"
  by (induction xs) simp_all

lemma unique_complete:
  "unique_progress d \<Longrightarrow> unique_progress (snd (handleCompleteModule (c, d)))"
  using handleCompleteModule_tables [of c d]
  by (simp add: unique_progress_def map_key_update)

lemma unique_reset:
  "unique_progress d \<Longrightarrow> unique_progress (snd (resetModuleForRetake (c, d)))"
  using resetModuleForRetake_tables [of c d]
  by (simp add: unique_progress_def map_key_update)

lemma unique_submit:
  "unique_progress d \<Longrightarrow> unique_progress (snd (submitQuizAnswer quiz (c, d)))"
  using submitQuizAnswer_tables [of quiz c d]
  by (auto simp: unique_progress_def map_key_update)

lemma unique_generate:
  "unique_progress d \<Longrightarrow> unique_progress (snd (handleGenerateModules uid g (c, d)))"
  using handleGenerateModules_snd [of uid g c d]
  by (auto dest: insert_progress_rows_Inr)

lemma unique_upsert:
  "unique_progress d \<Longrightarrow> unique_progress (upsert_user_module_progress uid mid pct fin d)"
  using upsert_user_module_progress_cases [where d = d and uid = uid and mid = mid and pct = pct and fin = fin]
  by auto

lemma unique_update:
  "unique_progress d \<Longrightarrow> unique_progress (snd (updateProgress user inc (pg, d)))"
  using updateProgress_snd [of user inc pg d] by (auto simp: unique_upsert)

lemma unique_step: "unique_progress (database s) \<Longrightarrow> unique_progress (database (step e s))"
  by (cases e)
     (auto simp: on_dashboard_def Let_def unique_complete unique_reset unique_submit
        unique_generate unique_update handleMarkComplete_snd split: option.splits)

lemma unique_run: "unique_progress (database s) \<Longrightarrow> unique_progress (database (run es s))"
  by (induction es arbitrary: s) (simp_all add: run_Nil run_Cons unique_step)

text \<open>
  What module generation answers on a table without duplicates: its rows are stored
  behind the rows of the table exactly when the service returned modules, none of them
  would be a duplicate and all of them are learning modules; otherwise nothing is
  stored, and the error is the duplicate-key error when a row would be a duplicate.
\<close>

lemma generate_on_unique:
  assumes u: "unique_progress d"
  shows "case generateModulesMutation uid generated d of
           Inr d' \<Rightarrow>
             unique_progress d'
             \<and> map progress_key (user_module_progress d')
                 = map progress_key (user_module_progress d)
                   @ map (\<lambda>m. (uid, m_id m)) generated
             \<and> generated \<noteq> []
             \<and> list_all (\<lambda>m. m_id m \<in> set (learning_modules d)) generated
         | Inl e \<Rightarrow>
             e = (if generated = [] then NoModulesReturned
                  else if \<not> distinct (map progress_key (user_module_progress d)
                                        @ map (\<lambda>m. (uid, m_id m)) generated)
                  then DuplicateKey
                  else ForeignKeyViolation)
             \<and> (generated = []
                 \<or> \<not> distinct (map progress_key (user_module_progress d)
                                  @ map (\<lambda>m. (uid, m_id m)) generated)
                 \<or> \<not> list_all (\<lambda>m. m_id m \<in> set (learning_modules d)) generated)"
proof -
  let ?rows = "modulesToInsert uid generated"
  let ?new = "assign_ids (next_uuid d) ?rows"
  have keys: "map progress_key ?new = map (\<lambda>m. (uid, m_id m)) generated"
    by (simp add: assign_ids_keys modulesToInsert_def progress_key_def comp_def)
  have pct: "list_all (\<lambda>r. int4 (progress_percentage r)) ?rows"
    by (simp add: modulesToInsert_def list_all_iff int4_def)
  have fk: "list_all (\<lambda>r. module_id r \<in> set (learning_modules d)) ?rows
            = list_all (\<lambda>m. m_id m \<in> set (learning_modules d)) generated"
    by (simp add: modulesToInsert_def list_all_iff)
  from u have dt: "distinct (map progress_key (user_module_progress d))"
    by (simp add: unique_progress_def)
  have none: "insert_rows (user_module_progress d) ?new = None
              \<longleftrightarrow> \<not> distinct (map progress_key (user_module_progress d)
                                @ map (\<lambda>m. (uid, m_id m)) generated)"
    using insert_rows_None [OF dt, of ?new] keys by simp
  show ?thesis
  proof (cases "generated = []")
    case True
    then show ?thesis by (simp add: generateModulesMutation_def)
  next
    case False
    then have g: "generateModulesMutation uid generated d = insert_progress_rows ?rows d"
      by (simp add: generateModulesMutation_def)
    show ?thesis
    proof (cases "insert_rows (user_module_progress d) ?new")
      case None
      with none pct False show ?thesis
        by (simp add: g insert_progress_rows_def)
    next
      case (Some stored)
      with none have dist: "distinct (map progress_key (user_module_progress d)
                                @ map (\<lambda>m. (uid, m_id m)) generated)"
        by simp
      from insert_rows_Some [OF Some] have st: "stored = user_module_progress d @ ?new" .
      show ?thesis
      proof (cases "list_all (\<lambda>m. m_id m \<in> set (learning_modules d)) generated")
        case True
        with Some pct fk st dist keys False show ?thesis
          by (simp add: g insert_progress_rows_def unique_progress_def)
      next
        case nofk: False
        with Some pct fk dist False show ?thesis
          by (simp add: g insert_progress_rows_def)
      qed
    qed
  qed
qed

text \<open>
  The upsert of the module page stores its row exactly when the user has no row for the
  module id sent, that id is the id of a learning module and the percentage is an
  INTEGER.
\<close>

lemma upsert_keys:
  "map progress_key (user_module_progress (upsert_user_module_progress uid mid pct fin d)) =
     (if (uid, mid) \<notin> set (map progress_key (user_module_progress d))
         \<and> mid \<in> set (learning_modules d) \<and> int4 pct
      then map progress_key (user_module_progress d) @ [(uid, mid)]
      else map progress_key (user_module_progress d))"
  by (simp add: upsert_user_module_progress_def insert_progress_rows_def upsert_row_def
      progress_key_def)

text \<open>
  Claim C5. From a state in which \<open>user_module_progress\<close> holds at most one row per
  \<open>(user_id, module_id)\<close>, every sequence of user actions leads to such a state again.
  The two insert paths, on such a table: module generation either stores its rows, and
  the table is again without duplicates, or it fails and stores nothing, with the
  duplicate-key error when one of its rows would be a duplicate; the progress upsert of
  the module page leaves the table without duplicates, storing its row only when the
  table holds no row for its user and module.
\<close>

theorem progress_rows_unique:
  "(unique_progress (database s) \<longrightarrow> unique_progress (database (run es s)))
   \<and> (unique_progress d \<longrightarrow>
        (case generateModulesMutation uid generated d of
           Inr d' \<Rightarrow>
             unique_progress d'
             \<and> map progress_key (user_module_progress d')
                 = map progress_key (user_module_progress d)
                   @ map (\<lambda>m. (uid, m_id m)) generated
             \<and> generated \<noteq> []
             \<and> list_all (\<lambda>m. m_id m \<in> set (learning_modules d)) generated
         | Inl e \<Rightarrow>
             e = (if generated = [] then NoModulesReturned
                  else if \<not> distinct (map progress_key (user_module_progress d)
                                        @ map (\<lambda>m. (uid, m_id m)) generated)
                  then DuplicateKey
                  else ForeignKeyViolation)
             \<and> (generated = []
                 \<or> \<not> distinct (map progress_key (user_module_progress d)
                                  @ map (\<lambda>m. (uid, m_id m)) generated)
                 \<or> \<not> list_all (\<lambda>m. m_id m \<in> set (learning_modules d)) generated)))
   \<and> (unique_progress d \<longrightarrow>
        unique_progress (upsert_user_module_progress u mid pct fin d)
        \<and> map progress_key (user_module_progress (upsert_user_module_progress u mid pct fin d)) =
            (if (u, mid) \<notin> set (map progress_key (user_module_progress d))
                \<and> mid \<in> set (learning_modules d) \<and> int4 pct
             then map progress_key (user_module_progress d) @ [(u, mid)]
             else map progress_key (user_module_progress d)))"
  using unique_run [where s = s and es = es]
    generate_on_unique [where d = d and uid = uid and generated = generated]
    unique_upsert [where d = d and uid = u and mid = mid and pct = pct and fin = fin]
    upsert_keys [where d = d and uid = u and mid = mid and pct = pct and fin = fin]
  by blast

text \<open>
  The theorem at work. Alice starts without modules; after her session the table holds
  the two generated rows. Generating the same batch again is refused with the
  duplicate-key error, and an upsert for a module she has a row for stores nothing.
\<close>

theorem progress_rows_unique_witness:
  "unique_progress (database no_modules)
   \<and> unique_progress (database (run long_session no_modules))
   \<and> map progress_key (user_module_progress (database (run long_session no_modules)))
       = [(alice, Lit ''m2''), (alice, Lit ''m3'')]
   \<and> generateModulesMutation alice generated_batch (database (run long_session no_modules))
       = Inl DuplicateKey
   \<and> map progress_key
        (user_module_progress
           (upsert_user_module_progress alice (Lit ''m3'') 40 False
              (database (run long_session no_modules))))
       = [(alice, Lit ''m2''), (alice, Lit ''m3'')]
   \<and> map progress_key
        (user_module_progress
           (upsert_user_module_progress alice (Lit ''m1'') 40 False
              (database (run long_session no_modules))))
       = [(alice, Lit ''m2''), (alice, Lit ''m3''), (alice, Lit ''m1'')]"
proof -
  let ?d = "database (run long_session no_modules)"
  have u: "unique_progress (database no_modules)"
    by code_simp
  have k: "map progress_key (user_module_progress ?d) = [(alice, Lit ''m2''), (alice, Lit ''m3'')]"
    by code_simp
  have lm: "learning_modules ?d = [Lit ''m1'', Lit ''m2'', Lit ''m3'']"
    by code_simp
  have g: "generateModulesMutation alice generated_batch ?d = Inl DuplicateKey"
    by code_simp
  have i: "int4 40"
    by (simp add: int4_def)
  note inst3 = progress_rows_unique [where s = no_modules and es = long_session
      and d = ?d and uid = alice and generated = generated_batch and u = alice
      and mid = "Lit ''m3''" and pct = 40 and fin = False]
  note inst1 = progress_rows_unique [where s = no_modules and es = long_session
      and d = ?d and uid = alice and generated = generated_batch and u = alice
      and mid = "Lit ''m1''" and pct = 40 and fin = False]
  from inst3 u have u': "unique_progress ?d"
    by blast
  from inst3 [THEN conjunct2, THEN conjunct2, rule_format, OF u', THEN conjunct2]
  have a: "map progress_key
        (user_module_progress (upsert_user_module_progress alice (Lit ''m3'') 40 False ?d))
       = [(alice, Lit ''m2''), (alice, Lit ''m3'')]"
    unfolding k lm by (simp add: alice_def)
  from inst1 [THEN conjunct2, THEN conjunct2, rule_format, OF u', THEN conjunct2]
  have b: "map progress_key
        (user_module_progress (upsert_user_module_progress alice (Lit ''m1'') 40 False ?d))
       = [(alice, Lit ''m2''), (alice, Lit ''m3''), (alice, Lit ''m1'')]"
    unfolding k lm using i by (simp add: alice_def)
  from u u' k g a b show ?thesis by simp
qed

section \<open>Completed rows and their percentage\<close>

lemma list_all_assign_ids_completed:
  "list_all (\<lambda>r. is_completed r \<longrightarrow> progress_percentage r = 100) (assign_ids n rs)
   = list_all (\<lambda>r. is_completed r \<longrightarrow> progress_percentage r = 100) rs"
  by (rule assign_ids_list_all) simp

lemma list_all_modulesToInsert_completed:
  "list_all (\<lambda>r. is_completed r \<longrightarrow> progress_percentage r = 100) (modulesToInsert uid g)"
  by (simp add: modulesToInsert_def list_all_iff)

lemma c100_complete:
  "completed_means_100 d \<Longrightarrow> completed_means_100 (snd (handleCompleteModule (c, d)))"
  using handleCompleteModule_tables [of c d]
  by (auto simp: completed_means_100_def list_all_iff)

lemma c100_reset:
  "completed_means_100 d \<Longrightarrow> completed_means_100 (snd (resetModuleForRetake (c, d)))"
  using resetModuleForRetake_tables [of c d]
  by (auto simp: completed_means_100_def list_all_iff)

lemma insert_progress_rows_tables:
  "insert_progress_rows rows d = Inr d' \<Longrightarrow>
     user_module_progress d' = user_module_progress d @ assign_ids (next_uuid d) rows
     \<and> progress d' = progress d"
  by (auto simp: insert_progress_rows_def split: if_splits option.splits dest: insert_rows_Some)

lemma c100_generate:
  "completed_means_100 d \<Longrightarrow> completed_means_100 (snd (handleGenerateModules uid g (c, d)))"
  using handleGenerateModules_snd [of uid g c d]
  by (auto simp: completed_means_100_def list_all_assign_ids_completed
        list_all_modulesToInsert_completed dest!: insert_progress_rows_tables)

lemma upsert_tables:
  "upsert_user_module_progress uid mid pct fin d = d
   \<or> (user_module_progress (upsert_user_module_progress uid mid pct fin d)
         = user_module_progress d @ [(upsert_row uid mid pct fin)\<lparr>m_id := Gen (next_uuid d)\<rparr>]
       \<and> progress (upsert_user_module_progress uid mid pct fin d) = progress d)"
proof (cases "insert_progress_rows [upsert_row uid mid pct fin] d")
  case (Inl e)
  then show ?thesis by (simp add: upsert_user_module_progress_def)
next
  case (Inr d')
  from insert_progress_rows_tables [OF Inr] Inr show ?thesis
    by (simp add: upsert_user_module_progress_def)
qed

lemma c100_upsert:
  "completed_means_100 d \<Longrightarrow> (fin \<longrightarrow> pct = 100) \<Longrightarrow>
     completed_means_100 (upsert_user_module_progress uid mid pct fin d)"
  using upsert_tables [of uid mid pct fin d]
  by (auto simp: completed_means_100_def upsert_row_def)

lemma c100_update:
  "completed_means_100 d \<Longrightarrow> completed_means_100 (snd (updateProgress user inc (pg, d)))"
  using updateProgress_snd [of user inc pg d] by (auto simp: c100_upsert)

lemma c100_step:
  "not_quiz_submission e \<Longrightarrow> completed_means_100 (database s) \<Longrightarrow>
     completed_means_100 (database (step e s))"
  by (cases e)
     (auto simp: on_dashboard_def Let_def c100_complete c100_reset c100_generate c100_update
        handleMarkComplete_snd split: option.splits)

text \<open>
  The four operations \<open>completeModuleMutation\<close>, \<open>handleMarkComplete\<close>,
  \<open>updateProgress\<close> and \<open>resetModuleForRetake\<close>, and every other action except the
  submission of a quiz answer, keep every completed row at 100.
\<close>

lemma completed_at_100_without_submission:
  "\<forall>e \<in> set es. not_quiz_submission e \<Longrightarrow> completed_means_100 (database s) \<Longrightarrow>
     completed_means_100 (database (run es s))"
  by (induction es arbitrary: s) (simp_all add: run_Nil run_Cons c100_step)

lemma c100_markComplete_row:
  "completed_means_100 d \<Longrightarrow>
     completed_means_100 (upsert_progress
        \<lparr>pr_user_id = u, pr_module_id = mid, pr_is_completed = True,
         pr_progress_percentage = 100\<rparr> d)"
  by (auto simp: completed_means_100_def upsert_progress_def Let_def list_all_iff list_ex_iff)

text \<open>
  Claim C4. The submission of a quiz answer writes the percentage alone. It refuses a
  module that is completed or read-only, but by the copy of the module that the dialog
  holds, and a completion does not refresh that copy. Alice opens her module, selects
  the answers to its two questions and completes it: the row is completed and stands at
  100. In the dialog, still open, she submits her first answer, which is correct: the
  completed row now stands at 50.
\<close>

theorem completed_row_below_100:
  "map (\<lambda>r. (is_completed r, progress_percentage r))
     (user_module_progress (database
        (run [FetchSession, OpenModule 0 [quiz1, quiz2], AnswerSelect ''q1'' ''4'',
              AnswerSelect ''q2'' ''6'', CompleteModule]
           (start_with row1 (Num 0)))))
     = [(True, 100)]
   \<and> map (\<lambda>r. (is_completed r, progress_percentage r))
       (user_module_progress (database
          (run [FetchSession, OpenModule 0 [quiz1, quiz2], AnswerSelect ''q1'' ''4'',
                AnswerSelect ''q2'' ''6'', CompleteModule, SubmitQuiz quiz1]
             (start_with row1 (Num 0)))))
     = [(True, 50)]"
  by code_simp

section \<open>Percentages stay between 0 and 100\<close>

lemma quiz_progress_range: "0 \<le> quiz_progress c n \<and> quiz_progress c n \<le> 100"
proof (cases "n = 0")
  case True
  then show ?thesis by (simp add: quiz_progress_def)
next
  case False
  have "0 \<le> js_div (of_nat c) (of_nat n)"
    unfolding js_div_def by (rule binary64_nonneg) simp
  then have "0 \<le> js_mul (js_div (of_nat c) (of_nat n)) 100"
    unfolding js_mul_def by (intro binary64_nonneg) simp
  then have "0 \<le> \<lfloor>js_mul (js_div (of_nat c) (of_nat n)) 100\<rfloor>" by simp
  with False show ?thesis by (simp add: quiz_progress_def)
qed

lemma list_all_assign_ids_range:
  "list_all (\<lambda>r. 0 \<le> progress_percentage r \<and> progress_percentage r \<le> 100) (assign_ids n rs)
   = list_all (\<lambda>r. 0 \<le> progress_percentage r \<and> progress_percentage r \<le> 100) rs"
  by (rule assign_ids_list_all) simp

lemma list_all_modulesToInsert_range:
  "list_all (\<lambda>r. 0 \<le> progress_percentage r \<and> progress_percentage r \<le> 100)
     (modulesToInsert uid g)"
  by (simp add: modulesToInsert_def list_all_iff)

lemma range_complete:
  "percent_in_range d \<Longrightarrow> percent_in_range (snd (handleCompleteModule (c, d)))"
  using handleCompleteModule_tables [of c d]
  by (auto simp: percent_in_range_def list_all_iff)

lemma range_reset:
  "percent_in_range d \<Longrightarrow> percent_in_range (snd (resetModuleForRetake (c, d)))"
  using resetModuleForRetake_tables [of c d]
  by (auto simp: percent_in_range_def list_all_iff)

lemma range_submit:
  "percent_in_range d \<Longrightarrow> percent_in_range (snd (submitQuizAnswer quiz (c, d)))"
  using submitQuizAnswer_tables [of quiz c d]
  by (auto simp: percent_in_range_def list_all_iff quiz_progress_range)

lemma range_generate:
  "percent_in_range d \<Longrightarrow> percent_in_range (snd (handleGenerateModules uid g (c, d)))"
  using handleGenerateModules_snd [of uid g c d]
  by (auto simp: percent_in_range_def list_all_assign_ids_range
        list_all_modulesToInsert_range dest!: insert_progress_rows_tables)

lemma range_upsert:
  "percent_in_range d \<Longrightarrow> 0 \<le> pct \<Longrightarrow> pct \<le> 100 \<Longrightarrow>
     percent_in_range (upsert_user_module_progress uid mid pct fin d)"
  using upsert_tables [of uid mid pct fin d]
  by (auto simp: percent_in_range_def upsert_row_def)

lemma range_update:
  "percent_in_range d \<Longrightarrow> page_in_range pg \<Longrightarrow> 0 \<le> inc \<Longrightarrow>
     percent_in_range (snd (updateProgress user inc (pg, d)))
     \<and> page_in_range (fst (updateProgress user inc (pg, d)))"
  using updateProgress_snd [of user inc pg d] updateProgress_fst [of user inc pg d]
  by (auto simp: range_upsert page_in_range_def)

lemma single_Some: "single xs = Some x \<Longrightarrow> x \<in> set xs"
  by (auto simp: single_def split: list.splits)

lemma range_load:
  "percent_in_range d \<Longrightarrow> page_in_range pg \<Longrightarrow> page_in_range (loadModule user mid d pg)"
  by (auto simp: loadModule_def page_in_range_def percent_in_range_def list_all_iff
      split: option.splits dest!: single_Some)

lemma range_step:
  "nonnegative_increment e \<Longrightarrow> percent_in_range (database s) \<and> page_in_range (page s) \<Longrightarrow>
     percent_in_range (database (step e s)) \<and> page_in_range (page (step e s))"
  by (cases e)
     (auto simp: on_dashboard_def Let_def range_complete range_reset range_generate range_update
        range_submit range_load handleMarkComplete_snd split: option.splits)

lemma range_run:
  "\<forall>e \<in> set es. nonnegative_increment e \<Longrightarrow>
     percent_in_range (database s) \<and> page_in_range (page s) \<Longrightarrow>
     percent_in_range (database (run es s)) \<and> page_in_range (page (run es s))"
proof (induction es arbitrary: s)
  case Nil
  then show ?case by (simp add: run_Nil)
next
  case (Cons e es)
  from Cons.prems have "nonnegative_increment e" by simp
  from range_step [OF this Cons.prems(2)]
  have "percent_in_range (database (step e s)) \<and> page_in_range (page (step e s))" .
  moreover from Cons.prems have "\<forall>e \<in> set es. nonnegative_increment e" by simp
  ultimately show ?case using Cons.IH by (simp add: run_Cons)
qed

lemma range_markComplete_row:
  "percent_in_range d \<Longrightarrow>
     percent_in_range (upsert_progress
        \<lparr>pr_user_id = u, pr_module_id = mid, pr_is_completed = True,
         pr_progress_percentage = 100\<rparr> d)"
  by (auto simp: percent_in_range_def upsert_progress_def Let_def list_all_iff list_ex_iff)

subsection \<open>What each operation writes\<close>

text \<open>
  \<open>updateProgress\<close> shows the new percentage on the page and sends one row with it. The
  row is stored when the user has no row for the module id sent, that id is the id of a
  learning module, and the percentage is an INTEGER; otherwise the table stays as it
  was.
\<close>

lemma updateProgress_exact:
  assumes "mp_module pg = Some m"
  shows "mp_progress (fst (updateProgress (Some u) inc (pg, d))) = min (mp_progress pg + inc) 100
    \<and> user_module_progress (snd (updateProgress (Some u) inc (pg, d))) =
        (if (u, m_id m) \<notin> set (map progress_key (user_module_progress d))
            \<and> m_id m \<in> set (learning_modules d)
            \<and> int4 (min (mp_progress pg + inc) 100)
         then user_module_progress d
              @ [\<lparr>m_id = Gen (next_uuid d), user_id = u, module_id = m_id m, title = [],
                  difficulty = [], estimated_duration = 0, points_reward = Null,
                  progress_percentage = min (mp_progress pg + inc) 100,
                  is_completed = (min (mp_progress pg + inc) 100 = 100),
                  is_read_only = False, quizzes = []\<rparr>]
         else user_module_progress d)"
  using assms
  by (simp add: updateProgress_def Let_def upsert_user_module_progress_def
      insert_progress_rows_def upsert_row_def progress_key_def)

text \<open>
  Claim C7, as amended. Starting from a state whose stored percentages and module page
  progress lie in \<open>[0, 100]\<close>, every sequence of user actions whose \<open>updateProgress\<close>
  increments are non-negative leads to a state whose stored percentages are integers in
  \<open>[0, 100]\<close>. The submission of a correct answer writes
  \<open>min(floor((completedCount / quizCount) * 100), 100)\<close> into the rows of the selected
  module and the loaded profile, with quotient and product in double precision and
  \<open>completedCount\<close> one more than the size of \<open>completedQuizzes\<close> (100 when the module
  has no questions, the quotient being \<open>Infinity\<close>). \<open>updateProgress\<close> shows
  \<open>min(previous + increment, 100)\<close> and sends it in a new row, which is stored when the
  database accepts it. Completion writes 100 and reset writes 0 into the rows of the
  selected module and the loaded profile.
\<close>

theorem progress_percentage_in_range:
  assumes "\<forall>e \<in> set es. nonnegative_increment e"
    and "percent_in_range (database s)"
    and "page_in_range (page s)"
  shows "percent_in_range (database (run es s))
    \<and> (selectedModule c = Some m \<and> profile c = Some p
        \<and> \<not> is_read_only m \<and> \<not> is_completed m
        \<and> map_of (answers c) (q_id quiz) = Some (correct_answer quiz)
        \<and> correct_answer quiz \<noteq> [] \<longrightarrow>
         user_module_progress (snd (submitQuizAnswer quiz (c, d))) =
           map (\<lambda>r. if matches_selection c r
                     then r\<lparr>progress_percentage :=
                              (if quizzes m = [] then 100
                               else min \<lfloor>js_mul
                                           (js_div (of_nat (length (completedQuizzes c) + 1))
                                              (of_nat (length (quizzes m)))) 100\<rfloor> 100)\<rparr>
                     else r) (user_module_progress d))
    \<and> (mp_module pg = Some m' \<longrightarrow>
         mp_progress (fst (updateProgress (Some u) increment (pg, d)))
           = min (mp_progress pg + increment) 100
         \<and> user_module_progress (snd (updateProgress (Some u) increment (pg, d))) =
             (if (u, m_id m') \<notin> set (map progress_key (user_module_progress d))
                 \<and> m_id m' \<in> set (learning_modules d)
                 \<and> int4 (min (mp_progress pg + increment) 100)
              then user_module_progress d
                   @ [\<lparr>m_id = Gen (next_uuid d), user_id = u, module_id = m_id m', title = [],
                       difficulty = [], estimated_duration = 0, points_reward = Null,
                       progress_percentage = min (mp_progress pg + increment) 100,
                       is_completed = (min (mp_progress pg + increment) 100 = 100),
                       is_read_only = False, quizzes = []\<rparr>]
              else user_module_progress d))
    \<and> user_module_progress (snd (handleCompleteModule (c, d))) =
         map (\<lambda>r. if matches_selection c r
                   then r\<lparr>progress_percentage := 100, is_completed := True,
                          is_read_only := True\<rparr>
                   else r) (user_module_progress d)
    \<and> user_module_progress (snd (resetModuleForRetake (c, d))) =
         map (\<lambda>r. if matches_selection c r
                   then r\<lparr>progress_percentage := 0, is_completed := False,
                          is_read_only := False\<rparr>
                   else r) (user_module_progress d)"
proof -
  have a: "percent_in_range (database (run es s))"
    using range_run [OF assms(1)] assms(2,3) by simp
  have b: "selectedModule c = Some m \<and> profile c = Some p
        \<and> \<not> is_read_only m \<and> \<not> is_completed m
        \<and> map_of (answers c) (q_id quiz) = Some (correct_answer quiz)
        \<and> correct_answer quiz \<noteq> [] \<longrightarrow>
         user_module_progress (snd (submitQuizAnswer quiz (c, d))) =
           map (\<lambda>r. if matches_selection c r
                     then r\<lparr>progress_percentage :=
                              (if quizzes m = [] then 100
                               else min \<lfloor>js_mul
                                           (js_div (of_nat (length (completedQuizzes c) + 1))
                                              (of_nat (length (quizzes m)))) 100\<rfloor> 100)\<rparr>
                     else r) (user_module_progress d)"
  proof (intro impI, elim conjE)
    assume h: "selectedModule c = Some m" "profile c = Some p" "\<not> is_read_only m"
      "\<not> is_completed m" "map_of (answers c) (q_id quiz) = Some (correct_answer quiz)"
      "correct_answer quiz \<noteq> []"
    have q: "quiz_progress (length (completedQuizzes c) + 1) (length (quizzes m)) =
               (if quizzes m = [] then 100
                else min \<lfloor>js_mul (js_div (of_nat (length (completedQuizzes c) + 1))
                                           (of_nat (length (quizzes m)))) 100\<rfloor> 100)"
      by (simp add: quiz_progress_def)
    from submitQuizAnswer_correct [OF h, of d] show
      "user_module_progress (snd (submitQuizAnswer quiz (c, d))) =
           map (\<lambda>r. if matches_selection c r
                     then r\<lparr>progress_percentage :=
                              (if quizzes m = [] then 100
                               else min \<lfloor>js_mul
                                           (js_div (of_nat (length (completedQuizzes c) + 1))
                                              (of_nat (length (quizzes m)))) 100\<rfloor> 100)\<rparr>
                     else r) (user_module_progress d)"
      unfolding q .
  qed
  note u = updateProgress_exact [where pg = pg and m = m' and u = u and inc = increment and d = d]
  from a b u handleCompleteModule_tables [of c d] resetModuleForRetake_tables [of c d]
  show ?thesis by blast
qed

text \<open>
  The theorem at work. After alice's long session the percentages are in range. With two
  questions open, her first correct answer writes 50, a completion writes 100, and a
  reset writes 0. On the module page of her module an increment of 40 shows 40, while the
  row sent is refused: the id it carries is that of her progress row, not of a learning
  module.
\<close>

theorem progress_percentage_in_range_witness:
  "list_all nonnegative_increment long_session
   \<and> percent_in_range (database no_modules)
   \<and> page_in_range (page no_modules)
   \<and> percent_in_range (database (run long_session no_modules))
   \<and> map progress_percentage
       (user_module_progress (snd (submitQuizAnswer quiz1 (dash two_questions, database two_questions))))
     = [50]
   \<and> mp_progress (fst (updateProgress (Some alice) 40
        (page (run [LoadModule (Lit ''m1'')] two_questions), database two_questions))) = 40
   \<and> user_module_progress (snd (updateProgress (Some alice) 40
        (page (run [LoadModule (Lit ''m1'')] two_questions), database two_questions)))
     = [row1]
   \<and> map progress_percentage
       (user_module_progress (snd (handleCompleteModule (dash two_questions, database two_questions))))
     = [100]
   \<and> map progress_percentage
       (user_module_progress (snd (resetModuleForRetake
          (dash (step (SubmitQuiz quiz1) two_questions),
           database (step (SubmitQuiz quiz1) two_questions)))))
     = [0]"
proof -
  have e: "list_all nonnegative_increment long_session"
    by code_simp
  have i: "percent_in_range (database no_modules)"
    by code_simp
  have g: "page_in_range (page no_modules)"
    by code_simp
  have sel: "selectedModule (dash two_questions) = Some (row1\<lparr>quizzes := [quiz1, quiz2]\<rparr>)"
    by code_simp
  have prof: "profile (dash two_questions) = Some \<lparr>p_id = alice, total_points = Num 0\<rparr>"
    by code_simp
  have ans: "map_of (answers (dash two_questions)) (q_id quiz1) = Some (correct_answer quiz1)"
    by code_simp
  have cq: "completedQuizzes (dash two_questions) = []"
    by code_simp
  have rows: "user_module_progress (database two_questions) = [row1]"
    by code_simp
  have fifty: "min \<lfloor>js_mul (js_div (of_nat (length ([] :: string list) + 1))
                  (of_nat (length [quiz1, quiz2]))) 100\<rfloor> 100 = (50 :: int)"
    by code_simp
  have ms: "matches_selection (dash two_questions) row1"
    using sel prof by (simp add: matches_selection_def row1_def)
  have pg: "mp_module (page (run [LoadModule (Lit ''m1'')] two_questions)) = Some row1"
    by code_simp
  have pp: "mp_progress (page (run [LoadModule (Lit ''m1'')] two_questions)) = 0"
    by code_simp
  have lm: "learning_modules (database two_questions) = [Lit ''m1'', Lit ''m2'', Lit ''m3'']"
    by code_simp
  have zero: "map progress_percentage
       (user_module_progress (snd (resetModuleForRetake
          (dash (step (SubmitQuiz quiz1) two_questions),
           database (step (SubmitQuiz quiz1) two_questions)))))
     = [0]"
    by code_simp
  from e have e': "\<forall>e \<in> set long_session. nonnegative_increment e"
    by (simp add: list_all_iff)
  note inst = progress_percentage_in_range [OF e' i g,
      where c = "dash two_questions" and m = "row1\<lparr>quizzes := [quiz1, quiz2]\<rparr>"
        and p = "\<lparr>p_id = alice, total_points = Num 0\<rparr>" and quiz = quiz1
        and d = "database two_questions"
        and pg = "page (run [LoadModule (Lit ''m1'')] two_questions)" and m' = row1
        and u = alice and increment = 40]
  from inst have r: "percent_in_range (database (run long_session no_modules))"
    by (rule conjunct1)
  have h1: "selectedModule (dash two_questions) = Some (row1\<lparr>quizzes := [quiz1, quiz2]\<rparr>)
      \<and> profile (dash two_questions) = Some \<lparr>p_id = alice, total_points = Num 0\<rparr>
      \<and> \<not> is_read_only (row1\<lparr>quizzes := [quiz1, quiz2]\<rparr>)
      \<and> \<not> is_completed (row1\<lparr>quizzes := [quiz1, quiz2]\<rparr>)
      \<and> map_of (answers (dash two_questions)) (q_id quiz1) = Some (correct_answer quiz1)
      \<and> correct_answer quiz1 \<noteq> []"
    using sel prof ans by (simp add: row1_def quiz1_def)
  have val: "(if quizzes (row1\<lparr>quizzes := [quiz1, quiz2]\<rparr>) = [] then 100
              else min \<lfloor>js_mul
                          (js_div (of_nat (length (completedQuizzes (dash two_questions)) + 1))
                             (of_nat (length (quizzes (row1\<lparr>quizzes := [quiz1, quiz2]\<rparr>)))))
                          100\<rfloor> 100) = (50 :: int)"
    unfolding cq by code_simp
  from inst [THEN conjunct2, THEN conjunct1, rule_format, OF h1]
  have s: "map progress_percentage
       (user_module_progress (snd (submitQuizAnswer quiz1 (dash two_questions, database two_questions))))
     = [50]"
    unfolding val rows using ms by simp
  have no: "m_id row1 \<notin> set (learning_modules (database two_questions))"
    unfolding lm by (simp add: row1_def)
  from inst [THEN conjunct2, THEN conjunct2, THEN conjunct1, rule_format, OF pg]
  have up: "mp_progress (fst (updateProgress (Some alice) 40
        (page (run [LoadModule (Lit ''m1'')] two_questions), database two_questions))) = 40
    \<and> user_module_progress (snd (updateProgress (Some alice) 40
        (page (run [LoadModule (Lit ''m1'')] two_questions), database two_questions)))
     = [row1]"
    unfolding pp rows using no by simp
  from inst [THEN conjunct2, THEN conjunct2, THEN conjunct2, THEN conjunct1]
  have co: "map progress_percentage
       (user_module_progress (snd (handleCompleteModule (dash two_questions, database two_questions))))
     = [100]"
    unfolding rows using ms by simp
  from e i g r s up co zero show ?thesis by simp
qed

text \<open>The state with twenty-eight answered questions is reached by answering them in turn.\<close>

lemma twenty_eight_done_reached:
  "run ([FetchSession, OpenModule 0 (map quiz_no [0..<50])]
        @ concat (map answer_and_submit [0..<28])
        @ [AnswerSelect (q_id (quiz_no 28)) ''4''])
     (start_with row1 (Num 0))
   = twenty_eight_done"
  by code_simp

text \<open>
  Claim C7 as stated gives \<open>min(floor(100 * completedCount / quizCount), 100)\<close> for the
  value written by \<open>submitQuizAnswer\<close>. On alice's twenty-ninth correct answer of fifty
  the quotient \<open>29 / 50\<close> is the double just below 0.58, its product with 100 is
  57.99999999999999, and the row receives 57 where the stated formula gives 58.
\<close>

theorem twenty_nine_of_fifty:
  "length (completedQuizzes (dash twenty_eight_done)) + 1 = 29
   \<and> map_option (length \<circ> quizzes) (selectedModule (dash twenty_eight_done)) = Some 50
   \<and> map progress_percentage
        (user_module_progress (database (step (SubmitQuiz (quiz_no 28)) twenty_eight_done)))
       = [57]
   \<and> min \<lfloor>100 * (29 :: rat) / 50\<rfloor> 100 = (58 :: int)"
  by code_simp

section \<open>What the policies permit\<close>










subsection \<open>Keys\<close>

lemma owned_by_append [simp]: "owned_by u (xs @ ys) = owned_by u xs @ owned_by u ys"
  by (simp add: owned_by_def)

lemma not_owned_by_append [simp]:
  "not_owned_by u (xs @ ys) = not_owned_by u xs @ not_owned_by u ys"
  by (simp add: not_owned_by_def)

lemma owned_by_idem [simp]: "owned_by u (owned_by u xs) = owned_by u xs"
  by (simp add: owned_by_def)

lemma not_owned_by_owned [simp]: "not_owned_by u (owned_by u xs) = []"
  by (simp add: owned_by_def not_owned_by_def)




subsection \<open>INSERT\<close>




subsection \<open>UPDATE\<close>










section \<open>The reward for an inherited property name\<close>

text \<open>
  For every difficulty that is not the name of a member of \<open>Object.prototype\<close> the
  function returns the reward of the specification, a multiple of 5 that is at least 5.
\<close>

lemma calculatePointsReward_regular:
  "k \<notin> set object_prototype_keys \<Longrightarrow>
     calculatePointsReward duration k = Num (claimed_points duration k)
     \<and> 5 \<le> claimed_points duration k \<and> 5 dvd claimed_points duration k"
  by (auto simp: calculatePointsReward_def claimed_points_def difficultyMultiplier_def
      claimed_multiplier_def Let_def max_def)

text \<open>
  Claim C9, at the difficulty \<open>constructor\<close>. The lookup finds the inherited function
  \<open>Object\<close>, which is truthy, so the fallback \<open>|| 1\<close> is not taken and the product is
  NaN: for duration 30 the function returns NaN where the claim promises 5.
\<close>

theorem calculatePointsReward_inherited_key:
  "calculatePointsReward 30 ''constructor'' = NaN \<and> claimed_points 30 ''constructor'' = 5"
  by code_simp

section \<open>A second badge for the same module\<close>

text \<open>
  Claim C1. Alice has answered the one question of her module correctly. She clicks
  "Complete Module": the score is 100, the row is completed and a badge is stored; the
  mutation then throws, nothing is fetched again, and the dialog still holds the module
  as it was opened, so the button is still there. She clicks it again:
  \<open>awardBadgeMutation\<close> inserts a second badge for \<open>(alice, m1)\<close>, into a
  \<open>user_badges\<close> table that accepts it.
\<close>

theorem second_badge_on_second_completion:
  "user_badges_constraint (database ready_to_complete) = NoConstraint
   \<and> complete_shown (dash ready_to_complete)
   \<and> length (badges_for alice (Lit ''m1'') (database (run [CompleteModule] ready_to_complete))) = 1
   \<and> complete_shown (dash (run [CompleteModule] ready_to_complete))
   \<and> length (badges_for alice (Lit ''m1'')
        (database (run [CompleteModule, CompleteModule] ready_to_complete))) = 2"
  by code_simp

text \<open>
  The same happens when she closes the dialog and opens the module again: the list of
  modules was not fetched again either, the module opens as a fresh one, and a second
  completion brings a second badge.
\<close>

lemma second_badge_after_reopening:
  "length (badges_for alice (Lit ''m1'')
     (database (run [CompleteModule, CloseModule, OpenModule 0 [quiz1],
                     AnswerSelect ''q1'' ''4'', CompleteModule] ready_to_complete))) = 2"
  by code_simp

text \<open>
  And on the sequence the claim names. After "Refresh" the module is listed as
  completed; opened for review it carries no questions, the score shown is 0 and
  "Retake Module" is offered, although alice had scored 100. She resets the module,
  opens it again, answers and completes it: a second badge.
\<close>

lemma second_badge_after_retake:
  "retake_shown (dash (run [CompleteModule, CloseModule, Refresh, OpenModule 0 []]
                         ready_to_complete))
   \<and> length (badges_for alice (Lit ''m1'')
        (database (run [CompleteModule, CloseModule, Refresh, OpenModule 0 [],
                        ResetForRetake, CloseModule, OpenModule 0 [quiz1],
                        AnswerSelect ''q1'' ''4'', CompleteModule] ready_to_complete))) = 2"
  by code_simp

text \<open>
  The code never looks at the badges a user has. Only a \<open>user_badges\<close> table created
  with the uniqueness constraint keeps the second badge out, by refusing the insert.
\<close>

lemma one_badge_under_constraint:
  "length (badges_for alice (Lit ''m1'')
     (database (run [CompleteModule, CompleteModule] (constrained ready_to_complete)))) = 1"
  by code_simp

section \<open>Points that are lost\<close>

text \<open>
  A module shown by the dashboard has a positive reward unless its difficulty is the name
  of a member of \<open>Object.prototype\<close>.
\<close>

lemma consistent_points_positive:
  "m \<in> set (modulesWithConsistentPoints ms) \<Longrightarrow> difficulty m \<notin> set object_prototype_keys \<Longrightarrow>
     \<exists>r. points_reward m = Num r \<and> 0 < r"
proof -
  assume "m \<in> set (modulesWithConsistentPoints ms)" and reg: "difficulty m \<notin> set object_prototype_keys"
  then obtain m0 where m: "m = m0\<lparr>points_reward :=
                   (if gt_zero (points_reward m0) then points_reward m0
                    else calculatePointsReward (estimated_duration m0) (difficulty m0))\<rparr>"
    by (auto simp: modulesWithConsistentPoints_def)
  show ?thesis
  proof (cases "gt_zero (points_reward m0)")
    case True
    then show ?thesis using m by (cases "points_reward m0") auto
  next
    case False
    from reg m have "difficulty m0 \<notin> set object_prototype_keys" by simp
    from calculatePointsReward_regular [OF this, of "estimated_duration m0"] False m
    show ?thesis by auto
  qed
qed

text \<open>
  How a row without a reward comes to be stored: the module service returns a module of
  difficulty \<open>constructor\<close>, and \<open>generateModulesMutation\<close> stores the reward it
  computes for it.
\<close>

lemma generated_module_without_reward:
  "map (\<lambda>r. (difficulty r, points_reward r))
     (user_module_progress (database
        (run [FetchSession,
              GenerateModules [row1\<lparr>m_id := Lit ''m2'', difficulty := ''constructor''\<rparr>]]
           (start_with_rows [] (Num 40)))))
   = [(''constructor'', Null)]"
  by code_simp

text \<open>
  Claim C3, on a module with difficulty \<open>constructor\<close> and no stored reward. A correct
  answer takes alice from 40 to 45 points. Completing the module adds NaN; the request
  body carries null, the column holds NULL, and the dashboard reads it as 0.
\<close>

theorem total_points_lost_on_completion:
  "map total_points (profiles (database
     (run [FetchSession, OpenModule 0 [quiz1], AnswerSelect ''q1'' ''4'', SubmitQuiz quiz1]
        (start_with (row1\<lparr>difficulty := ''constructor'', points_reward := Null\<rparr>) (Num 40)))))
     = [Num 45]
   \<and> map total_points (profiles (database
     (run [FetchSession, OpenModule 0 [quiz1], AnswerSelect ''q1'' ''4'', SubmitQuiz quiz1,
           CompleteModule]
        (start_with (row1\<lparr>difficulty := ''constructor'', points_reward := Null\<rparr>) (Num 40)))))
     = [Null]
   \<and> or_zero Null < or_zero (Num 45)"
  by code_simp

text \<open>
  Points are also lost with an ordinary module. Every write of points starts from the
  profile held by the page, and a completion with a passing score does not fetch it
  again. Alice completes a module worth 20 points with score 100 and then, in the
  dialog still open, submits her answer: the page writes \<open>0 + 5\<close> and her stored total
  goes from 20 to 5.
\<close>

lemma total_points_lost_with_stale_profile:
  "map total_points (profiles (database
     (run [FetchSession, OpenModule 0 [quiz1], AnswerSelect ''q1'' ''4'', CompleteModule]
        (start_with (row1\<lparr>points_reward := Num 20\<rparr>) (Num 0)))))
     = [Num 20]
   \<and> map total_points (profiles (database
     (run [FetchSession, OpenModule 0 [quiz1], AnswerSelect ''q1'' ''4'', CompleteModule,
           SubmitQuiz quiz1]
        (start_with (row1\<lparr>points_reward := Num 20\<rparr>) (Num 0)))))
     = [Num 5]"
  by code_simp

end
